theory Spec2Isabelle
  imports Complex_Main
begin

section \<open>The emergency handler: data model\<close>

text \<open>
  The node \<^verbatim>\<open>EmergencyHandler\<close> of
  \<^verbatim>\<open>system/emergency_handler/src/emergency_handler/emergency_handler_core.cpp\<close>
  is embedded as a record of its member variables, every callback as a function on that
  record. Messages sent to publishers and service clients are appended to the field
  \<open>outputs\<close>, log lines to the field \<open>logged\<close>, so that their order can be read off.

  The message fields \<^verbatim>\<open>state\<close>, \<^verbatim>\<open>behavior\<close>, \<^verbatim>\<open>level\<close>, \<^verbatim>\<open>mode\<close> are integers that the
  code only ever compares with named constants. Each is a datatype of the named constants
  plus one constructor \<open>..._OTHER n\<close> for the integers that are none of them (the
  \<open>n\<close>-th such integer), so that values outside the enumeration exist in the model.
\<close>

datatype mrm_state_value = NORMAL | MRM_OPERATING | MRM_SUCCEEDED | MRM_FAILED | STATE_OTHER nat

datatype mrm_behavior = NONE | COMFORTABLE_STOP | EMERGENCY_STOP | BEHAVIOR_OTHER nat

datatype hazard_level = NO_FAULT | SAFE_FAULT | LATENT_FAULT | SINGLE_POINT_FAULT | LEVEL_OTHER nat

datatype control_mode_value = AUTONOMOUS | MANUAL | MODE_OTHER nat

datatype behavior_status_value = NOT_AVAILABLE | AVAILABLE | OPERATING | STATUS_OTHER nat

datatype hazard_lights = NO_COMMAND | ENABLE

datatype gear = DRIVE | PARK

record Param =
  update_rate :: int
  timeout_hazard_status :: real
  use_parking_after_stopped :: bool
  use_comfortable_stop :: bool
  turning_hazard_on_emergency :: bool

record HazardStatus =
  level :: hazard_level
  emergency :: bool
  emergency_holding :: bool

record HazardStatusStamped =
  hazard_stamp :: real
  status :: HazardStatus

text \<open>
  The only field of the control command that the code touches is its stamp; the rest of
  the message is kept as an uninterpreted payload.
\<close>

record AckermannControlCommand =
  command_stamp :: real
  command_payload :: "real list"

record MrmState =
  stamp :: real
  state :: mrm_state_value
  behavior :: mrm_behavior

datatype mrm_client = client_mrm_comfortable_stop | client_mrm_emergency_stop

text \<open>
  What leaves the node: a message on one of the publishers, or a request
  (\<^verbatim>\<open>operate = true/false\<close>) on one of the two service clients.
\<close>

datatype out_msg =
    pub_hazard_cmd hazard_lights
  | pub_gear_cmd real gear
  | pub_mrm_state MrmState
  | async_send_request mrm_client bool

datatype log_entry =
    LOG_DEBUG string
  | LOG_INFO_THROTTLE string
  | LOG_WARN string
  | LOG_WARN_THROTTLE string
  | LOG_ERROR string

text \<open>
  \<^verbatim>\<open>std::runtime_error("invalid state: ...")\<close> carries the offending value. Dereferencing
  \<^verbatim>\<open>hazard_status_stamped_\<close> while it is still null is the second way a callback can fail.
\<close>

datatype error = runtime_error_invalid_state mrm_state_value | null_pointer_dereference

text \<open>
  The member variables. \<open>odom\<close> holds \<^verbatim>\<open>odom_->twist.twist.linear.x\<close>, the only part of
  the odometry the code reads; it is a real number here (the source's \<^verbatim>\<open>double\<close>, read
  as the number it stands for). Time stamps are seconds as real numbers.
  \<open>debug_enabled\<close> is the logger's setting: the arguments of \<^verbatim>\<open>RCLCPP_DEBUG\<close> are only
  evaluated when the debug severity is enabled.
\<close>

record handler =
  param :: Param
  debug_enabled :: bool
  hazard_status_stamped :: "HazardStatusStamped option"
  stamp_hazard_status :: real
  prev_control_command :: AckermannControlCommand
  odom :: real
  control_mode :: control_mode_value
  mrm_comfortable_stop_status :: behavior_status_value
  mrm_emergency_stop_status :: behavior_status_value
  mrm_state :: MrmState
  is_hazard_status_timeout :: bool
  outputs :: "out_msg list"
  logged :: "log_entry list"

section \<open>Construction and subscription callbacks\<close>

text \<open>
  Modelled from the spec: the value of the \<^verbatim>\<open>state\<close> field of a default-constructed
  \<^verbatim>\<open>MrmBehaviorStatus\<close> message. The message definition is not part of the sources at
  hand; the spec's readiness gate counts a controller whose status was never received as
  not available.
\<close>

definition default_MrmBehaviorStatus :: behavior_status_value where
  "default_MrmBehaviorStatus = NOT_AVAILABLE"

text \<open>
  Modelled from the spec: the \<^verbatim>\<open>mode\<close> of a default-constructed \<^verbatim>\<open>ControlModeReport\<close>
  (the integer 0), which the spec's autonomy mode enumeration does not list as AUTONOMOUS.
\<close>

definition default_ControlModeReport :: control_mode_value where
  "default_ControlModeReport = MODE_OTHER 0"

text \<open>
  The constructor, lines 21 to 93: parameters are declared, the snapshots are
  default-constructed (zero velocity), the state starts as NORMAL/NONE.
  \<^verbatim>\<open>hazard_status_stamped_\<close> is not assigned and stays null;
  \<^verbatim>\<open>stamp_hazard_status_\<close> is a default-constructed time.
\<close>

definition EmergencyHandler :: "Param \<Rightarrow> bool \<Rightarrow> real \<Rightarrow> handler" where
  "EmergencyHandler p dbg now =
     \<lparr> param = p,
       debug_enabled = dbg,
       hazard_status_stamped = None,
       stamp_hazard_status = 0,
       prev_control_command = \<lparr> command_stamp = 0, command_payload = [] \<rparr>,
       odom = 0,
       control_mode = default_ControlModeReport,
       mrm_comfortable_stop_status = default_MrmBehaviorStatus,
       mrm_emergency_stop_status = default_MrmBehaviorStatus,
       mrm_state = \<lparr> stamp = now, state = NORMAL, behavior = NONE \<rparr>,
       is_hazard_status_timeout = False,
       outputs = [],
       logged = [] \<rparr>"

definition onHazardStatusStamped :: "HazardStatusStamped \<Rightarrow> real \<Rightarrow> handler \<Rightarrow> handler" where
  "onHazardStatusStamped msg now h =
     h\<lparr> hazard_status_stamped := Some msg, stamp_hazard_status := now \<rparr>"

definition onPrevControlCommand :: "AckermannControlCommand \<Rightarrow> handler \<Rightarrow> handler" where
  "onPrevControlCommand msg h =
     h\<lparr> prev_control_command := msg\<lparr> command_stamp := command_stamp msg \<rparr> \<rparr>"

definition onOdometry :: "real \<Rightarrow> handler \<Rightarrow> handler" where
  "onOdometry msg h = h\<lparr> odom := msg \<rparr>"

definition onControlMode :: "control_mode_value \<Rightarrow> handler \<Rightarrow> handler" where
  "onControlMode msg h = h\<lparr> control_mode := msg \<rparr>"

definition onMrmComfortableStopStatus :: "behavior_status_value \<Rightarrow> handler \<Rightarrow> handler" where
  "onMrmComfortableStopStatus msg h = h\<lparr> mrm_comfortable_stop_status := msg \<rparr>"

definition onMrmEmergencyStopStatus :: "behavior_status_value \<Rightarrow> handler \<Rightarrow> handler" where
  "onMrmEmergencyStopStatus msg h = h\<lparr> mrm_emergency_stop_status := msg \<rparr>"

section \<open>Predicates on the snapshots\<close>

definition isEmergency :: "handler \<Rightarrow> error + bool" where
  "isEmergency h =
     (case hazard_status_stamped h of
        None \<Rightarrow> Inl null_pointer_dereference
      | Some m \<Rightarrow>
          Inr (emergency (status m) \<or> emergency_holding (status m)
               \<or> is_hazard_status_timeout h))"

definition th_stopped_velocity :: real where
  "th_stopped_velocity = 1 / 1000"

definition isStopped :: "handler \<Rightarrow> bool" where
  "isStopped h = (if odom h < th_stopped_velocity then True else False)"

text \<open>
  \<^verbatim>\<open>isDataReady\<close>, lines 285 to 312: the three checks in the source's order, each with
  its throttled log line.
\<close>

definition rclcpp_log :: "log_entry \<Rightarrow> handler \<Rightarrow> handler" where
  "rclcpp_log e h = h\<lparr> logged := logged h @ [e] \<rparr>"

definition isDataReady :: "handler \<Rightarrow> bool \<times> handler" where
  "isDataReady h =
     (if hazard_status_stamped h = None then
        (False, rclcpp_log (LOG_INFO_THROTTLE ''waiting for hazard_status_stamped msg...'') h)
      else if use_comfortable_stop (param h)
              \<and> mrm_comfortable_stop_status h = NOT_AVAILABLE then
        (False,
         rclcpp_log (LOG_INFO_THROTTLE ''waiting for mrm comfortable stop to become available...'') h)
      else if mrm_emergency_stop_status h = NOT_AVAILABLE then
        (False,
         rclcpp_log (LOG_INFO_THROTTLE ''waiting for mrm emergency stop to become available...'') h)
      else (True, h))"

definition checkHazardStatusTimeout :: "real \<Rightarrow> handler \<Rightarrow> handler" where
  "checkHazardStatusTimeout now h =
     (if now - stamp_hazard_status h > timeout_hazard_status (param h) then
        rclcpp_log (LOG_WARN_THROTTLE ''heartbeat_hazard_status is timeout'')
          (h\<lparr> is_hazard_status_timeout := True \<rparr>)
      else h\<lparr> is_hazard_status_timeout := False \<rparr>)"

section \<open>Publishing\<close>

definition send :: "out_msg \<Rightarrow> handler \<Rightarrow> handler" where
  "send x h = h\<lparr> outputs := outputs h @ [x] \<rparr>"

definition createHazardCmdMsg :: "handler \<Rightarrow> error + hazard_lights" where
  "createHazardCmdMsg h =
     (case isEmergency h of
        Inl e \<Rightarrow> Inl e
      | Inr is_emergency \<Rightarrow>
          (case hazard_status_stamped h of
             None \<Rightarrow> Inl null_pointer_dereference
           | Some m \<Rightarrow>
               if emergency_holding (status m) then Inr ENABLE
               else if is_emergency \<and> turning_hazard_on_emergency (param h) then Inr ENABLE
               else Inr NO_COMMAND))"

definition publishControlCommands :: "real \<Rightarrow> handler \<Rightarrow> error + handler" where
  "publishControlCommands now h =
     (case createHazardCmdMsg h of
        Inl e \<Rightarrow> Inl e
      | Inr msg \<Rightarrow>
          (let h1 = send (pub_hazard_cmd msg) h
           in if use_parking_after_stopped (param h1) \<and> isStopped h1
              then Inr (send (pub_gear_cmd now PARK) h1)
              else Inr (send (pub_gear_cmd now DRIVE) h1)))"

definition publishMrmState :: "real \<Rightarrow> handler \<Rightarrow> handler" where
  "publishMrmState now h =
     (let h1 = h\<lparr> mrm_state := (mrm_state h)\<lparr> stamp := now \<rparr> \<rparr>
      in send (pub_mrm_state (mrm_state h1)) h1)"

section \<open>The behavior invoker\<close>

text \<open>
  \<open>resp c operate\<close> is the \<^verbatim>\<open>success\<close> field of the response that the backup controller
  \<open>c\<close> gives to a request; it only selects the log line. The blocking wait for the
  response is taken to return.
\<close>

definition callMrmBehavior ::
  "(mrm_client \<Rightarrow> bool \<Rightarrow> bool) \<Rightarrow> mrm_behavior \<Rightarrow> handler \<Rightarrow> handler" where
  "callMrmBehavior resp mrm_behavior h =
     (if mrm_behavior = NONE then rclcpp_log (LOG_WARN ''MRM behavior is None. Do nothing.'') h
      else if mrm_behavior = COMFORTABLE_STOP then
        (let h1 = send (async_send_request client_mrm_comfortable_stop True) h
         in if resp client_mrm_comfortable_stop True
            then rclcpp_log (LOG_WARN ''Comfortable stop is operated'') h1
            else rclcpp_log (LOG_ERROR ''Comfortable stop is failed to operate'') h1)
      else if mrm_behavior = EMERGENCY_STOP then
        (let h1 = send (async_send_request client_mrm_emergency_stop True) h
         in if resp client_mrm_emergency_stop True
            then rclcpp_log (LOG_WARN ''Emergency stop is operated'') h1
            else rclcpp_log (LOG_ERROR ''Emergency stop is failed to operate'') h1)
      else rclcpp_log (LOG_WARN ''invalid MRM behavior'') h)"

definition cancelMrmBehavior ::
  "(mrm_client \<Rightarrow> bool \<Rightarrow> bool) \<Rightarrow> mrm_behavior \<Rightarrow> handler \<Rightarrow> handler" where
  "cancelMrmBehavior resp mrm_behavior h =
     (if mrm_behavior = NONE then h
      else if mrm_behavior = COMFORTABLE_STOP then
        (let h1 = send (async_send_request client_mrm_comfortable_stop False) h
         in if resp client_mrm_comfortable_stop False
            then rclcpp_log (LOG_WARN ''Comfortable stop is canceled'') h1
            else rclcpp_log (LOG_ERROR ''Comfortable stop is failed to cancel'') h1)
      else if mrm_behavior = EMERGENCY_STOP then
        (let h1 = send (async_send_request client_mrm_emergency_stop False) h
         in if resp client_mrm_emergency_stop False
            then rclcpp_log (LOG_WARN ''Emergency stop is canceled'') h1
            else rclcpp_log (LOG_ERROR ''Emergency stop is failed to cancel'') h1)
      else rclcpp_log (LOG_WARN ''invalid MRM behavior'') h)"

section \<open>The behavior arbitrator\<close>

text \<open>
  The local variable \<^verbatim>\<open>level\<close> of \<^verbatim>\<open>getCurrentMrmBehavior\<close>, lines 421 to 425: the
  reported level, overridden while the fault report is stale.
\<close>

definition current_hazard_level :: "handler \<Rightarrow> error + hazard_level" where
  "current_hazard_level h =
     (case hazard_status_stamped h of
        None \<Rightarrow> Inl null_pointer_dereference
      | Some m \<Rightarrow>
          if is_hazard_status_timeout h then Inr SINGLE_POINT_FAULT
          else Inr (level (status m)))"

definition getCurrentMrmBehavior :: "handler \<Rightarrow> error + mrm_behavior" where
  "getCurrentMrmBehavior h =
     (case current_hazard_level h of
        Inl e \<Rightarrow> Inl e
      | Inr lvl \<Rightarrow>
          if behavior (mrm_state h) = NONE \<and> lvl = LATENT_FAULT then
            (if use_comfortable_stop (param h) then Inr COMFORTABLE_STOP
             else Inr EMERGENCY_STOP)
          else if behavior (mrm_state h) = NONE \<and> lvl = SINGLE_POINT_FAULT then
            Inr EMERGENCY_STOP
          else if behavior (mrm_state h) = COMFORTABLE_STOP \<and> lvl = SINGLE_POINT_FAULT then
            Inr EMERGENCY_STOP
          else Inr (behavior (mrm_state h)))"

definition set_behavior :: "mrm_behavior \<Rightarrow> handler \<Rightarrow> handler" where
  "set_behavior b h = h\<lparr> mrm_state := (mrm_state h)\<lparr> behavior := b \<rparr> \<rparr>"

definition set_state :: "mrm_state_value \<Rightarrow> handler \<Rightarrow> handler" where
  "set_state s h = h\<lparr> mrm_state := (mrm_state h)\<lparr> state := s \<rparr> \<rparr>"

text \<open>
  \<^verbatim>\<open>operateMrm\<close>, lines 185 to 217. In each branch the requests are issued first and the
  new behavior is stored afterwards.
\<close>

definition operateMrm :: "(mrm_client \<Rightarrow> bool \<Rightarrow> bool) \<Rightarrow> handler \<Rightarrow> error + handler" where
  "operateMrm resp h =
     (if state (mrm_state h) = NORMAL then
        (if NONE \<noteq> behavior (mrm_state h)
         then Inr (set_behavior NONE (cancelMrmBehavior resp (behavior (mrm_state h)) h))
         else Inr h)
      else if state (mrm_state h) = MRM_OPERATING then
        (case getCurrentMrmBehavior h of
           Inl e \<Rightarrow> Inl e
         | Inr current_mrm_behavior \<Rightarrow>
             if current_mrm_behavior \<noteq> behavior (mrm_state h)
             then Inr (set_behavior current_mrm_behavior
                        (callMrmBehavior resp current_mrm_behavior
                          (cancelMrmBehavior resp (behavior (mrm_state h)) h)))
             else Inr h)
      else if state (mrm_state h) = MRM_SUCCEEDED then Inr h
      else if state (mrm_state h) = MRM_FAILED then Inr h
      else Inr (rclcpp_log (LOG_WARN ''invalid MRM state'') h))"

section \<open>The state machine\<close>

definition state2string :: "mrm_state_value \<Rightarrow> error + string" where
  "state2string s =
     (if s = NORMAL then Inr ''NORMAL''
      else if s = MRM_OPERATING then Inr ''MRM_OPERATING''
      else if s = MRM_SUCCEEDED then Inr ''MRM_SUCCEEDED''
      else if s = MRM_FAILED then Inr ''MRM_FAILED''
      else Inl (runtime_error_invalid_state s))"

text \<open>
  \<^verbatim>\<open>transitionTo\<close>, lines 344 to 371. The two calls of \<^verbatim>\<open>state2string\<close> are arguments of
  the debug log macro, so they run (and can throw) only when debug logging is enabled.
\<close>

definition transitionTo :: "mrm_state_value \<Rightarrow> handler \<Rightarrow> error + handler" where
  "transitionTo new_state h =
     (if debug_enabled h then
        (case state2string (state (mrm_state h)) of
           Inl e \<Rightarrow> Inl e
         | Inr old_name \<Rightarrow>
             (case state2string new_state of
                Inl e \<Rightarrow> Inl e
              | Inr new_name \<Rightarrow>
                  Inr (set_state new_state
                        (rclcpp_log (LOG_DEBUG (''MRM State changed: '' @ old_name @ '' -> '' @ new_name))
                           h))))
      else Inr (set_state new_state h))"

definition updateMrmState :: "handler \<Rightarrow> error + handler" where
  "updateMrmState h =
     (case isEmergency h of
        Inl e \<Rightarrow> Inl e
      | Inr is_emergency \<Rightarrow>
          (let is_auto_mode = (control_mode h = AUTONOMOUS)
           in if state (mrm_state h) = NORMAL then
                (if is_auto_mode \<and> is_emergency then transitionTo MRM_OPERATING h
                 else Inr h)
              else if \<not> is_emergency then transitionTo NORMAL h
              else if state (mrm_state h) = MRM_OPERATING then
                (if isStopped h then transitionTo MRM_SUCCEEDED h else Inr h)
              else if state (mrm_state h) = MRM_SUCCEEDED then Inr h
              else if state (mrm_state h) = MRM_FAILED then Inr h
              else Inl (runtime_error_invalid_state (state (mrm_state h)))))"

section \<open>The timer callback and runs of the node\<close>

text \<open>
  \<^verbatim>\<open>onTimer\<close>, lines 326 to 342. The clock is read once per tick in the model.
\<close>

definition onTimer :: "real \<Rightarrow> (mrm_client \<Rightarrow> bool \<Rightarrow> bool) \<Rightarrow> handler \<Rightarrow> error + handler" where
  "onTimer now resp h =
     (case isDataReady h of
        (ready, h0) \<Rightarrow>
          if \<not> ready then Inr h0
          else
            (let h1 = checkHazardStatusTimeout now h0
             in case updateMrmState h1 of
                  Inl e \<Rightarrow> Inl e
                | Inr h2 \<Rightarrow>
                    (case publishControlCommands now h2 of
                       Inl e \<Rightarrow> Inl e
                     | Inr h3 \<Rightarrow>
                         (case operateMrm resp h3 of
                            Inl e \<Rightarrow> Inl e
                          | Inr h4 \<Rightarrow> Inr (publishMrmState now h4)))))"

text \<open>
  What the executor can deliver to the node: one message on a subscription (the fault
  report together with the clock reading at its receipt), or one firing of the timer.
  All of them run in the node's default, mutually exclusive callback group, one after the
  other. A callback that throws ends the run.
\<close>

datatype input =
    HazardStatusStampedMsg HazardStatusStamped real
  | PrevControlCommandMsg AckermannControlCommand
  | OdometryMsg real
  | ControlModeMsg control_mode_value
  | MrmComfortableStopStatusMsg behavior_status_value
  | MrmEmergencyStopStatusMsg behavior_status_value
  | TimerTick real "mrm_client \<Rightarrow> bool \<Rightarrow> bool"

fun step :: "handler \<Rightarrow> input \<Rightarrow> error + handler" where
  "step h (HazardStatusStampedMsg msg now) = Inr (onHazardStatusStamped msg now h)"
| "step h (PrevControlCommandMsg msg) = Inr (onPrevControlCommand msg h)"
| "step h (OdometryMsg msg) = Inr (onOdometry msg h)"
| "step h (ControlModeMsg msg) = Inr (onControlMode msg h)"
| "step h (MrmComfortableStopStatusMsg msg) = Inr (onMrmComfortableStopStatus msg h)"
| "step h (MrmEmergencyStopStatusMsg msg) = Inr (onMrmEmergencyStopStatus msg h)"
| "step h (TimerTick now resp) = onTimer now resp h"

fun exec :: "handler \<Rightarrow> input list \<Rightarrow> error + handler" where
  "exec h [] = Inr h"
| "exec h (i # is) = (case step h i of Inl e \<Rightarrow> Inl e | Inr h1 \<Rightarrow> exec h1 is)"

text \<open>The states a run passes through, the first one included, up to a throwing callback.\<close>

fun exec_trace :: "handler \<Rightarrow> input list \<Rightarrow> handler list" where
  "exec_trace h [] = [h]"
| "exec_trace h (i # is) =
     h # (case step h i of Inl e \<Rightarrow> [] | Inr h1 \<Rightarrow> exec_trace h1 is)"

section \<open>Notions used to state the properties\<close>

fun is_request :: "out_msg \<Rightarrow> bool" where
  "is_request (async_send_request c operate) = True"
| "is_request (pub_hazard_cmd x) = False"
| "is_request (pub_gear_cmd t g) = False"
| "is_request (pub_mrm_state m) = False"

text \<open>The requests that \<open>cancelMrmBehavior\<close> and \<open>callMrmBehavior\<close> put on the wire.\<close>

definition cancel_requests :: "mrm_behavior \<Rightarrow> out_msg list" where
  "cancel_requests b =
     (if b = COMFORTABLE_STOP then [async_send_request client_mrm_comfortable_stop False]
      else if b = EMERGENCY_STOP then [async_send_request client_mrm_emergency_stop False]
      else [])"

definition call_requests :: "mrm_behavior \<Rightarrow> out_msg list" where
  "call_requests b =
     (if b = COMFORTABLE_STOP then [async_send_request client_mrm_comfortable_stop True]
      else if b = EMERGENCY_STOP then [async_send_request client_mrm_emergency_stop True]
      else [])"

text \<open>
  One behavior change of the field \<open>behavior\<close>: a step up in the order
  NONE, COMFORTABLE_STOP, EMERGENCY_STOP.
\<close>

definition escalation :: "mrm_behavior \<Rightarrow> mrm_behavior \<Rightarrow> bool" where
  "escalation b b' =
     ((b = NONE \<and> b' = COMFORTABLE_STOP) \<or> (b = NONE \<and> b' = EMERGENCY_STOP)
      \<or> (b = COMFORTABLE_STOP \<and> b' = EMERGENCY_STOP))"

definition valid_state :: "mrm_state_value \<Rightarrow> bool" where
  "valid_state s = (s = NORMAL \<or> s = MRM_OPERATING \<or> s = MRM_SUCCEEDED \<or> s = MRM_FAILED)"

definition valid_behavior :: "mrm_behavior \<Rightarrow> bool" where
  "valid_behavior b = (b = NONE \<or> b = COMFORTABLE_STOP \<or> b = EMERGENCY_STOP)"

fun is_fault_report :: "input \<Rightarrow> bool" where
  "is_fault_report (HazardStatusStampedMsg msg now) = True"
| "is_fault_report i = False"

fun is_odometry :: "input \<Rightarrow> bool" where
  "is_odometry (OdometryMsg v) = True"
| "is_odometry i = False"

fun emergency_stop_observed :: "input \<Rightarrow> bool" where
  "emergency_stop_observed (MrmEmergencyStopStatusMsg st) = (st \<noteq> NOT_AVAILABLE)"
| "emergency_stop_observed i = False"

fun comfortable_stop_observed :: "input \<Rightarrow> bool" where
  "comfortable_stop_observed (MrmComfortableStopStatusMsg st) = (st \<noteq> NOT_AVAILABLE)"
| "comfortable_stop_observed i = False"

text \<open>Reading a result: the pair of state and behavior, the outputs, whether it threw.\<close>

definition mrm_of :: "error + handler \<Rightarrow> (mrm_state_value \<times> mrm_behavior) option" where
  "mrm_of r = (case r of Inl e \<Rightarrow> None
                       | Inr h \<Rightarrow> Some (state (mrm_state h), behavior (mrm_state h)))"

definition outputs_of :: "error + handler \<Rightarrow> out_msg list option" where
  "outputs_of r = (case r of Inl e \<Rightarrow> None | Inr h \<Rightarrow> Some (outputs h))"

definition thrown :: "error + handler \<Rightarrow> error option" where
  "thrown r = (case r of Inl e \<Rightarrow> Some e | Inr h \<Rightarrow> None)"

text \<open>
  The order of the steps of a tick in the words of the specification, section 4.7:
  staleness, state machine, arbitration, command publication, state publication.
  It is only compared with \<open>onTimer\<close>.
\<close>

definition onTimer_spec_order ::
  "real \<Rightarrow> (mrm_client \<Rightarrow> bool \<Rightarrow> bool) \<Rightarrow> handler \<Rightarrow> error + handler" where
  "onTimer_spec_order now resp h =
     (case isDataReady h of
        (ready, h0) \<Rightarrow>
          if \<not> ready then Inr h0
          else
            (let h1 = checkHazardStatusTimeout now h0
             in case updateMrmState h1 of
                  Inl e \<Rightarrow> Inl e
                | Inr h2 \<Rightarrow>
                    (case operateMrm resp h2 of
                       Inl e \<Rightarrow> Inl e
                     | Inr h3 \<Rightarrow>
                         (case publishControlCommands now h3 of
                            Inl e \<Rightarrow> Inl e
                          | Inr h4 \<Rightarrow> Inr (publishMrmState now h4)))))"

section \<open>Concrete configurations\<close>

definition resp_ok :: "mrm_client \<Rightarrow> bool \<Rightarrow> bool" where
  "resp_ok c operate = True"

definition params_cs :: Param where
  "params_cs = \<lparr> update_rate = 10, timeout_hazard_status = 1 / 2,
                 use_parking_after_stopped = True, use_comfortable_stop = True,
                 turning_hazard_on_emergency = True \<rparr>"

definition params_es :: Param where
  "params_es = \<lparr> update_rate = 10, timeout_hazard_status = 1 / 2,
                 use_parking_after_stopped = True, use_comfortable_stop = False,
                 turning_hazard_on_emergency = True \<rparr>"

definition fault_report :: "hazard_level \<Rightarrow> bool \<Rightarrow> real \<Rightarrow> input" where
  "fault_report l e t =
     HazardStatusStampedMsg
       \<lparr> hazard_stamp = t,
         status = \<lparr> level = l, emergency = e, emergency_holding = False \<rparr> \<rparr> t"

text \<open>Both controllers available, autonomous driving, the vehicle moving at 5 m/s.\<close>

definition driving :: "input list" where
  "driving = [MrmEmergencyStopStatusMsg AVAILABLE, MrmComfortableStopStatusMsg AVAILABLE,
              ControlModeMsg AUTONOMOUS, OdometryMsg 5]"

text \<open>The fault then clears: the run of scenario A followed by recovery.\<close>

definition recovery_run :: "input list" where
  "recovery_run = driving @ [fault_report SINGLE_POINT_FAULT True 0, TimerTick (1 / 10) resp_ok,
                             fault_report NO_FAULT False (2 / 10), TimerTick (3 / 10) resp_ok]"

text \<open>... and a latent fault is reported after the recovery.\<close>

definition relapse_run :: "input list" where
  "relapse_run = recovery_run @ [fault_report LATENT_FAULT True (4 / 10),
                                 TimerTick (5 / 10) resp_ok]"

text \<open>
  A ready handler whose state is NORMAL while its behavior field still says
  EMERGENCY_STOP. No run produces it; it is what the first branch of \<open>operateMrm\<close>
  is written for.
\<close>

definition normal_with_behavior :: handler where
  "normal_with_behavior =
     set_behavior EMERGENCY_STOP
       (onHazardStatusStamped
          \<lparr> hazard_stamp = 0,
            status = \<lparr> level = NO_FAULT, emergency = False, emergency_holding = False \<rparr> \<rparr> 0
          (onMrmEmergencyStopStatus AVAILABLE (EmergencyHandler params_es False 0)))"

text \<open>
  A latent fault while driving with comfortable stop enabled; then the report worsens to a
  single point fault, the vehicle still moving.
\<close>

definition operating_cs_run :: "input list" where
  "operating_cs_run = driving @ [fault_report LATENT_FAULT True 0, TimerTick (1 / 10) resp_ok]"

definition escalation_run :: "input list" where
  "escalation_run = operating_cs_run @ [fault_report SINGLE_POINT_FAULT True (15 / 100)]"

text \<open>The same, but the vehicle has come to a stop before the report worsens.\<close>

definition stopped_escalation_run :: "input list" where
  "stopped_escalation_run =
     operating_cs_run @ [OdometryMsg 0, fault_report SINGLE_POINT_FAULT True (15 / 100)]"

text \<open>
  The vehicle stops under the comfortable stop, a tick records the success, and only then
  the report worsens.
\<close>

definition succeeded_run :: "input list" where
  "succeeded_run =
     operating_cs_run @ [OdometryMsg 0, TimerTick (2 / 10) resp_ok,
                         fault_report SINGLE_POINT_FAULT True (25 / 100)]"

definition requests_of :: "error + handler \<Rightarrow> out_msg list option" where
  "requests_of r = (case r of Inl e \<Rightarrow> None | Inr h \<Rightarrow> Some (filter is_request (outputs h)))"

definition level_of :: "error + handler \<Rightarrow> hazard_level option" where
  "level_of r =
     (case r of
        Inl e \<Rightarrow> None
      | Inr h \<Rightarrow> (case current_hazard_level h of Inl e \<Rightarrow> None | Inr l \<Rightarrow> Some l))"

text \<open>Scenario A: a single point fault is reported while driving autonomously.\<close>

definition scenario_a_run :: "input list" where
  "scenario_a_run = driving @ [fault_report SINGLE_POINT_FAULT True 0]"

text \<open>Running one more callback on the result of a run.\<close>

definition and_then :: "error + handler \<Rightarrow> (handler \<Rightarrow> error + handler) \<Rightarrow> error + handler" where
  "and_then r f = (case r of Inl e \<Rightarrow> Inl e | Inr h \<Rightarrow> f h)"

text \<open>
  Ready handlers built from the constructor by the callbacks alone: one whose last fault
  report is harmless, one whose last report is an emergency. The setters then plant a
  state or a behavior outside the enumeration, which no run does.
\<close>

definition quiet_handler :: handler where
  "quiet_handler =
     onHazardStatusStamped
       \<lparr> hazard_stamp = 0,
         status = \<lparr> level = NO_FAULT, emergency = False, emergency_holding = False \<rparr> \<rparr> 0
       (onMrmEmergencyStopStatus AVAILABLE (EmergencyHandler params_es False 0))"

definition alarmed_handler :: handler where
  "alarmed_handler =
     onHazardStatusStamped
       \<lparr> hazard_stamp = 0,
         status = \<lparr> level = SINGLE_POINT_FAULT, emergency = True,
                    emergency_holding = False \<rparr> \<rparr> 0
       (onMrmEmergencyStopStatus AVAILABLE (EmergencyHandler params_es False 0))"

definition invalid_state_handler :: handler where
  "invalid_state_handler = set_state (STATE_OTHER 0) quiet_handler"

definition invalid_behavior_handler :: handler where
  "invalid_behavior_handler =
     set_behavior (BEHAVIOR_OTHER 0) (set_state MRM_OPERATING (onOdometry 5 alarmed_handler))"

definition logged_of :: "error + handler \<Rightarrow> log_entry list option" where
  "logged_of r = (case r of Inl e \<Rightarrow> None | Inr h \<Rightarrow> Some (logged h))"

text \<open>
  Runs in which the readiness gate never opens: no fault report arrives; the emergency
  stop controller is only ever seen as not available; comfortable stop is enabled and its
  controller is never heard of.
\<close>

definition unreported_run :: "input list" where
  "unreported_run = driving @ [TimerTick (1 / 10) resp_ok, TimerTick (2 / 10) resp_ok]"

definition no_emergency_stop_run :: "input list" where
  "no_emergency_stop_run =
     [fault_report SINGLE_POINT_FAULT True 0, MrmComfortableStopStatusMsg AVAILABLE,
      ControlModeMsg AUTONOMOUS, MrmEmergencyStopStatusMsg NOT_AVAILABLE,
      TimerTick (1 / 10) resp_ok]"

definition no_comfortable_stop_run :: "input list" where
  "no_comfortable_stop_run =
     [fault_report SINGLE_POINT_FAULT True 0, MrmEmergencyStopStatusMsg AVAILABLE,
      ControlModeMsg AUTONOMOUS, TimerTick (1 / 10) resp_ok]"

text \<open>Scenario D: a harmless report, one tick, and then silence.\<close>

definition silent_run :: "input list" where
  "silent_run = driving @ [fault_report NO_FAULT False 0, TimerTick (1 / 10) resp_ok]"

text \<open>
  The report worsens to a single point fault but no longer carries the emergency flag.
\<close>

definition unflagged_escalation_run :: "input list" where
  "unflagged_escalation_run =
     operating_cs_run @ [fault_report SINGLE_POINT_FAULT False (15 / 100)]"

text \<open>
  A run in which no odometry message ever arrives: the emergency stop controller reports
  in, the vehicle is in autonomous mode, a single point fault is reported, one tick.
\<close>

definition no_odometry_run :: "input list" where
  "no_odometry_run =
     [MrmEmergencyStopStatusMsg AVAILABLE, ControlModeMsg AUTONOMOUS,
      fault_report SINGLE_POINT_FAULT True 0, TimerTick (1 / 10) resp_ok]"

section \<open>Frame and invariant notions\<close>

text \<open>The configuration and the stored inputs, which no step of a tick writes.\<close>

definition snapshots ::
  "handler \<Rightarrow> Param \<times> bool \<times> HazardStatusStamped option \<times> real \<times> AckermannControlCommand
     \<times> real \<times> control_mode_value \<times> behavior_status_value \<times> behavior_status_value" where
  "snapshots h = (param h, debug_enabled h, hazard_status_stamped h, stamp_hazard_status h,
     prev_control_command h, odom h, control_mode h, mrm_comfortable_stop_status h,
     mrm_emergency_stop_status h)"

definition normal_implies_none :: "MrmState \<Rightarrow> bool" where
  "normal_implies_none m = (state m = NORMAL \<longrightarrow> behavior m = NONE)"

definition normal_none_inv :: "handler \<Rightarrow> bool" where
  "normal_none_inv h =
     (normal_implies_none (mrm_state h)
      \<and> (\<forall>m. pub_mrm_state m \<in> set (outputs h) \<longrightarrow> normal_implies_none m))"

section \<open>What each step of a tick reads and writes\<close>

lemma snapshots_upd [simp]:
  "snapshots (h\<lparr> mrm_state := m \<rparr>) = snapshots h"
  "snapshots (h\<lparr> outputs := xs \<rparr>) = snapshots h"
  "snapshots (h\<lparr> logged := l \<rparr>) = snapshots h"
  "snapshots (h\<lparr> is_hazard_status_timeout := t \<rparr>) = snapshots h"
  by (simp_all add: snapshots_def)

lemmas invoker_defs = cancelMrmBehavior_def callMrmBehavior_def send_def rclcpp_log_def

lemma cancel_frame:
  "snapshots (cancelMrmBehavior resp b h) = snapshots h"
  "mrm_state (cancelMrmBehavior resp b h) = mrm_state h"
  "is_hazard_status_timeout (cancelMrmBehavior resp b h) = is_hazard_status_timeout h"
  "outputs (cancelMrmBehavior resp b h) = outputs h @ cancel_requests b"
  by (simp_all add: invoker_defs snapshots_def cancel_requests_def Let_def)

lemma call_frame:
  "snapshots (callMrmBehavior resp b h) = snapshots h"
  "mrm_state (callMrmBehavior resp b h) = mrm_state h"
  "is_hazard_status_timeout (callMrmBehavior resp b h) = is_hazard_status_timeout h"
  "outputs (callMrmBehavior resp b h) = outputs h @ call_requests b"
  by (simp_all add: invoker_defs snapshots_def call_requests_def Let_def)

lemma transitionTo_frame:
  assumes "transitionTo s h = Inr h'"
  shows "snapshots h' = snapshots h" "mrm_state h' = (mrm_state h)\<lparr> state := s \<rparr>"
    "is_hazard_status_timeout h' = is_hazard_status_timeout h" "outputs h' = outputs h"
  using assms
  by (auto simp: transitionTo_def set_state_def rclcpp_log_def snapshots_def split: if_splits sum.splits)

lemma updateMrmState_frame:
  assumes "updateMrmState h = Inr h'"
  shows "snapshots h' = snapshots h"
    "behavior (mrm_state h') = behavior (mrm_state h)"
    "stamp (mrm_state h') = stamp (mrm_state h)"
    "is_hazard_status_timeout h' = is_hazard_status_timeout h" "outputs h' = outputs h"
  using assms
  by (auto simp: updateMrmState_def Let_def split: if_splits sum.splits dest: transitionTo_frame)


lemma transitionTo_state:
  "transitionTo s h = Inr h' \<Longrightarrow> state (mrm_state h') = s"
  by (simp add: transitionTo_frame(2))

lemma updateMrmState_emergency:
  "updateMrmState h = Inr h' \<Longrightarrow> \<exists>e. isEmergency h = Inr e"
  by (cases "isEmergency h") (simp_all add: updateMrmState_def)

lemma upd_normal_emergency:
  assumes "updateMrmState h = Inr h'" "isEmergency h = Inr e" "state (mrm_state h) = NORMAL"
    "control_mode h = AUTONOMOUS" "e"
  shows "state (mrm_state h') = MRM_OPERATING"
  using assms by (simp add: updateMrmState_def transitionTo_state)

lemma upd_normal_stay:
  assumes "updateMrmState h = Inr h'" "isEmergency h = Inr e" "state (mrm_state h) = NORMAL"
    "\<not> (control_mode h = AUTONOMOUS \<and> e)"
  shows "h' = h"
  using assms by (simp add: updateMrmState_def)

lemma upd_recover:
  assumes "updateMrmState h = Inr h'" "isEmergency h = Inr False" "state (mrm_state h) \<noteq> NORMAL"
  shows "state (mrm_state h') = NORMAL"
  using assms by (simp add: updateMrmState_def transitionTo_state)

lemma upd_stopped:
  assumes "updateMrmState h = Inr h'" "isEmergency h = Inr True"
    "state (mrm_state h) = MRM_OPERATING" "isStopped h"
  shows "state (mrm_state h') = MRM_SUCCEEDED"
  using assms by (simp add: updateMrmState_def transitionTo_state)

lemma upd_emergency_stay:
  assumes "updateMrmState h = Inr h'" "isEmergency h = Inr True"
    "state (mrm_state h) \<noteq> NORMAL" "\<not> (state (mrm_state h) = MRM_OPERATING \<and> isStopped h)"
  shows "h' = h"
  using assms by (simp add: updateMrmState_def split: if_splits)

lemma updateMrmState_state:
  assumes "updateMrmState h = Inr h'" "isEmergency h = Inr e"
  shows "state (mrm_state h') =
     (if state (mrm_state h) = NORMAL
      then (if control_mode h = AUTONOMOUS \<and> e then MRM_OPERATING else NORMAL)
      else if \<not> e then NORMAL
      else if state (mrm_state h) = MRM_OPERATING \<and> isStopped h then MRM_SUCCEEDED
      else state (mrm_state h))"
proof (cases "state (mrm_state h) = NORMAL")
  case True
  show ?thesis
  proof (cases "control_mode h = AUTONOMOUS \<and> e")
    case True
    with upd_normal_emergency[OF assms \<open>state (mrm_state h) = NORMAL\<close>] show ?thesis
      using \<open>state (mrm_state h) = NORMAL\<close> by simp
  next
    case False
    with upd_normal_stay[OF assms \<open>state (mrm_state h) = NORMAL\<close>] show ?thesis
      using \<open>state (mrm_state h) = NORMAL\<close> by simp
  qed
next
  case False
  note nn = this
  show ?thesis
  proof (cases e)
    case False
    with assms nn upd_recover[of h h'] show ?thesis by simp
  next
    case True
    note em = this
    show ?thesis
    proof (cases "state (mrm_state h) = MRM_OPERATING \<and> isStopped h")
      case True
      with assms nn em upd_stopped[of h h'] show ?thesis by simp
    next
      case False
      with assms nn em upd_emergency_stay[of h h'] show ?thesis by simp
    qed
  qed
qed

lemma publishControlCommands_frame:
  assumes "publishControlCommands now h = Inr h'"
  shows "snapshots h' = snapshots h" "mrm_state h' = mrm_state h"
    "is_hazard_status_timeout h' = is_hazard_status_timeout h"
    "\<exists>hz g. outputs h' = outputs h @ [pub_hazard_cmd hz, pub_gear_cmd now g]"
  using assms
  by (auto simp: publishControlCommands_def send_def snapshots_def Let_def
           split: if_splits sum.splits)

lemma publishMrmState_frame:
  "snapshots (publishMrmState now h) = snapshots h"
  "state (mrm_state (publishMrmState now h)) = state (mrm_state h)"
  "behavior (mrm_state (publishMrmState now h)) = behavior (mrm_state h)"
  "is_hazard_status_timeout (publishMrmState now h) = is_hazard_status_timeout h"
  "outputs (publishMrmState now h) = outputs h @ [pub_mrm_state (mrm_state (publishMrmState now h))]"
  by (simp_all add: publishMrmState_def send_def snapshots_def Let_def)

lemma checkHazardStatusTimeout_frame:
  "snapshots (checkHazardStatusTimeout now h) = snapshots h"
  "mrm_state (checkHazardStatusTimeout now h) = mrm_state h"
  "outputs (checkHazardStatusTimeout now h) = outputs h"
  "is_hazard_status_timeout (checkHazardStatusTimeout now h)
     = (now - stamp_hazard_status h > timeout_hazard_status (param h))"
  by (simp_all add: checkHazardStatusTimeout_def rclcpp_log_def snapshots_def)

lemmas arbiter_defs = operateMrm_def set_behavior_def

lemma operateMrm_frame:
  assumes "operateMrm resp h = Inr h'"
  shows "snapshots h' = snapshots h" "state (mrm_state h') = state (mrm_state h)"
    "stamp (mrm_state h') = stamp (mrm_state h)"
    "is_hazard_status_timeout h' = is_hazard_status_timeout h"
  using assms
  by (auto simp: arbiter_defs rclcpp_log_def cancel_frame call_frame
           split: if_splits sum.splits)

lemma operateMrm_NORMAL:
  assumes "state (mrm_state h) = NORMAL"
  shows "\<exists>h'. operateMrm resp h = Inr h' \<and> behavior (mrm_state h') = NONE
           \<and> outputs h' = outputs h @ cancel_requests (behavior (mrm_state h))"
  using assms
  by (auto simp: arbiter_defs cancel_frame cancel_requests_def)

lemma operateMrm_OPERATING:
  assumes "state (mrm_state h) = MRM_OPERATING" "operateMrm resp h = Inr h'"
  shows "getCurrentMrmBehavior h = Inr (behavior (mrm_state h'))"
    "outputs h' = outputs h @
       (if behavior (mrm_state h') \<noteq> behavior (mrm_state h)
        then cancel_requests (behavior (mrm_state h)) @ call_requests (behavior (mrm_state h'))
        else [])"
  using assms
  by (auto simp: arbiter_defs cancel_frame call_frame split: if_splits sum.splits)

lemma operateMrm_other:
  assumes "state (mrm_state h) \<noteq> NORMAL" "state (mrm_state h) \<noteq> MRM_OPERATING"
  shows "\<exists>h'. operateMrm resp h = Inr h' \<and> mrm_state h' = mrm_state h
           \<and> outputs h' = outputs h"
  using assms
  by (auto simp: arbiter_defs rclcpp_log_def)

lemma isDataReady_iff:
  "fst (isDataReady h) \<longleftrightarrow>
     hazard_status_stamped h \<noteq> None
     \<and> (use_comfortable_stop (param h) \<longrightarrow> mrm_comfortable_stop_status h \<noteq> NOT_AVAILABLE)
     \<and> mrm_emergency_stop_status h \<noteq> NOT_AVAILABLE"
  by (simp add: isDataReady_def)

lemma isDataReady_True: "fst (isDataReady h) \<Longrightarrow> isDataReady h = (True, h)"
  by (simp add: isDataReady_def split: if_splits)

lemma isDataReady_False:
  assumes "\<not> fst (isDataReady h)"
  shows "\<exists>l. isDataReady h = (False, rclcpp_log l h)"
proof -
  have "isDataReady h = (False, snd (isDataReady h))"
    using assms by (cases "isDataReady h") simp
  moreover have "\<exists>l. snd (isDataReady h) = rclcpp_log l h"
    using assms unfolding isDataReady_def by (auto split: if_splits)
  ultimately show ?thesis by metis
qed

lemma onTimer_ready:
  assumes "fst (isDataReady h)" "onTimer now resp h = Inr h'"
  shows "\<exists>h2 h3 h4. updateMrmState (checkHazardStatusTimeout now h) = Inr h2
           \<and> publishControlCommands now h2 = Inr h3
           \<and> operateMrm resp h3 = Inr h4
           \<and> h' = publishMrmState now h4"
  using assms
  by (auto simp: onTimer_def isDataReady_True Let_def split: sum.splits)

lemma onTimer_not_ready:
  assumes "\<not> fst (isDataReady h)"
  shows "\<exists>l. onTimer now resp h = Inr (rclcpp_log l h)"
  using isDataReady_False[OF assms] by (auto simp: onTimer_def)


lemma requests_only:
  "list_all is_request (cancel_requests b)" "list_all is_request (call_requests b)"
  by (simp_all add: cancel_requests_def call_requests_def)

lemma operateMrm_outputs:
  assumes "operateMrm resp h = Inr h'"
  shows "\<exists>reqs. outputs h' = outputs h @ reqs \<and> list_all is_request reqs"
proof (cases "state (mrm_state h) = NORMAL")
  case True
  from operateMrm_NORMAL[OF True, of resp] assms show ?thesis
    by (auto simp: requests_only)
next
  case False
  show ?thesis
  proof (cases "state (mrm_state h) = MRM_OPERATING")
    case True
    from operateMrm_OPERATING(2)[OF True assms] show ?thesis
      by (cases "behavior (mrm_state h') \<noteq> behavior (mrm_state h)")
         (simp_all add: requests_only)
  next
    case nop: False
    from operateMrm_other[OF False nop, of resp] assms show ?thesis by auto
  qed
qed

lemma operateMrm_normal_none:
  assumes "operateMrm resp h = Inr h'" "state (mrm_state h') = NORMAL"
  shows "behavior (mrm_state h') = NONE"
proof -
  have "state (mrm_state h) = NORMAL"
    using operateMrm_frame(2)[OF assms(1)] assms(2) by simp
  from operateMrm_NORMAL[OF this, of resp] assms(1) show ?thesis by auto
qed

lemma onTimer_ready_normal_none:
  assumes "fst (isDataReady h)" "onTimer now resp h = Inr h'"
  shows "normal_implies_none (mrm_state h')"
    "\<exists>hz g reqs. outputs h' = outputs h @ [pub_hazard_cmd hz, pub_gear_cmd now g] @ reqs
          @ [pub_mrm_state (mrm_state h')] \<and> list_all is_request reqs"
proof -
  from onTimer_ready[OF assms] obtain h2 h3 h4 where
    u: "updateMrmState (checkHazardStatusTimeout now h) = Inr h2" and
    p: "publishControlCommands now h2 = Inr h3" and
    o: "operateMrm resp h3 = Inr h4" and
    h': "h' = publishMrmState now h4" by blast
  show "normal_implies_none (mrm_state h')"
    using operateMrm_normal_none[OF o]
    by (simp add: normal_implies_none_def h' publishMrmState_frame)
  from publishControlCommands_frame(4)[OF p] obtain hz g where
    "outputs h3 = outputs h2 @ [pub_hazard_cmd hz, pub_gear_cmd now g]" by blast
  moreover from operateMrm_outputs[OF o] obtain reqs where
    "outputs h4 = outputs h3 @ reqs" "list_all is_request reqs" by blast
  moreover have "outputs h2 = outputs h"
    using updateMrmState_frame(5)[OF u] by (simp add: checkHazardStatusTimeout_frame)
  moreover have "outputs h' = outputs h4 @ [pub_mrm_state (mrm_state h')]"
    unfolding h' by (rule publishMrmState_frame(5))
  ultimately show "\<exists>hz g reqs. outputs h' = outputs h @ [pub_hazard_cmd hz, pub_gear_cmd now g]
      @ reqs @ [pub_mrm_state (mrm_state h')] \<and> list_all is_request reqs"
    by auto
qed

lemma rclcpp_log_frame:
  "mrm_state (rclcpp_log l h) = mrm_state h" "outputs (rclcpp_log l h) = outputs h"
  "snapshots (rclcpp_log l h) = snapshots h"
  "is_hazard_status_timeout (rclcpp_log l h) = is_hazard_status_timeout h"
  by (simp_all add: rclcpp_log_def)

lemma onTimer_inv:
  assumes "onTimer now resp h = Inr h'" "normal_none_inv h"
  shows "normal_none_inv h'"
proof (cases "fst (isDataReady h)")
  case True
  from onTimer_ready_normal_none[OF True assms(1)] obtain hz g reqs where
    n: "normal_implies_none (mrm_state h')" and
    out: "outputs h' = outputs h @ [pub_hazard_cmd hz, pub_gear_cmd now g] @ reqs
          @ [pub_mrm_state (mrm_state h')]" and r: "list_all is_request reqs" by blast
  have "pub_mrm_state m \<notin> set reqs" for m
    using r by (auto simp: list_all_iff)
  with n out assms(2) show ?thesis
    by (auto simp: normal_none_inv_def)
next
  case False
  from onTimer_not_ready[OF False, of now resp] assms show ?thesis
    by (auto simp: normal_none_inv_def rclcpp_log_frame)
qed

lemma step_inv:
  assumes "step h i = Inr h'" "normal_none_inv h"
  shows "normal_none_inv h'"
proof (cases i)
  case (TimerTick now resp)
  with assms onTimer_inv show ?thesis by simp
qed (use assms in \<open>auto simp: normal_none_inv_def onHazardStatusStamped_def
      onPrevControlCommand_def onOdometry_def onControlMode_def
      onMrmComfortableStopStatus_def onMrmEmergencyStopStatus_def\<close>)

lemma exec_inv:
  "exec h inputs = Inr h' \<Longrightarrow> normal_none_inv h \<Longrightarrow> normal_none_inv h'"
proof (induction inputs arbitrary: h)
  case Nil
  then show ?case by simp
next
  case (Cons i inputs)
  then show ?case
    by (cases "step h i") (auto dest: step_inv)
qed

lemma init_inv: "normal_none_inv (EmergencyHandler p dbg t0)"
  by (simp add: normal_none_inv_def normal_implies_none_def EmergencyHandler_def)


lemmas eval_defs = EmergencyHandler_def default_MrmBehaviorStatus_def default_ControlModeReport_def
  onHazardStatusStamped_def onPrevControlCommand_def onOdometry_def onControlMode_def
  onMrmComfortableStopStatus_def onMrmEmergencyStopStatus_def isEmergency_def
  th_stopped_velocity_def isStopped_def rclcpp_log_def isDataReady_def checkHazardStatusTimeout_def
  send_def createHazardCmdMsg_def publishControlCommands_def publishMrmState_def
  callMrmBehavior_def cancelMrmBehavior_def current_hazard_level_def getCurrentMrmBehavior_def
  set_behavior_def set_state_def operateMrm_def state2string_def transitionTo_def
  updateMrmState_def onTimer_def mrm_of_def outputs_of_def thrown_def resp_ok_def
  params_cs_def params_es_def fault_report_def driving_def Let_def

lemma result_cases:
  assumes "thrown r = None"
  obtains h where "r = Inr h"
  using assms by (cases r) (simp_all add: thrown_def)

section \<open>The invariant NORMAL implies NONE\<close>

text \<open>
  Claim C1. In every state that a run of the node reaches from its constructor, a state
  field equal to NORMAL comes with a behavior field equal to NONE, and so does every
  MrmState message published so far. The arbitration step run on a NORMAL state returns a
  state whose behavior is NONE, and a tick that passes the readiness gate and ends in
  NORMAL ends with behavior NONE and publishes that state as its last message.
\<close>

theorem C1_normal_implies_none:
  "(exec (EmergencyHandler p dbg t0) inputs = Inr h \<longrightarrow>
      (state (mrm_state h) = NORMAL \<longrightarrow> behavior (mrm_state h) = NONE)
      \<and> (\<forall>m. pub_mrm_state m \<in> set (outputs h) \<longrightarrow> state m = NORMAL \<longrightarrow> behavior m = NONE))
   \<and> (state (mrm_state h0) = NORMAL \<longrightarrow>
        (\<exists>h1. operateMrm resp h0 = Inr h1 \<and> state (mrm_state h1) = NORMAL
              \<and> behavior (mrm_state h1) = NONE))
   \<and> (fst (isDataReady h0) \<and> onTimer now resp h0 = Inr h2 \<and> state (mrm_state h2) = NORMAL \<longrightarrow>
        behavior (mrm_state h2) = NONE \<and> last (outputs h2) = pub_mrm_state (mrm_state h2))"
proof -
  have run: "(state (mrm_state h) = NORMAL \<longrightarrow> behavior (mrm_state h) = NONE)
      \<and> (\<forall>m. pub_mrm_state m \<in> set (outputs h) \<longrightarrow> state m = NORMAL \<longrightarrow> behavior m = NONE)"
    if "exec (EmergencyHandler p dbg t0) inputs = Inr h"
    using exec_inv[OF that init_inv]
    by (simp add: normal_none_inv_def normal_implies_none_def)
  have arb: "\<exists>h1. operateMrm resp h0 = Inr h1 \<and> state (mrm_state h1) = NORMAL
              \<and> behavior (mrm_state h1) = NONE"
    if n: "state (mrm_state h0) = NORMAL"
  proof -
    from operateMrm_NORMAL[OF n, of resp] obtain h1 where
      o: "operateMrm resp h0 = Inr h1" and b: "behavior (mrm_state h1) = NONE" by blast
    from operateMrm_frame(2)[OF o] n b o show ?thesis by simp
  qed
  have tick: "behavior (mrm_state h2) = NONE \<and> last (outputs h2) = pub_mrm_state (mrm_state h2)"
    if a: "fst (isDataReady h0) \<and> onTimer now resp h0 = Inr h2 \<and> state (mrm_state h2) = NORMAL"
  proof
    from onTimer_ready_normal_none(1)[of h0 now resp h2] a
    show "behavior (mrm_state h2) = NONE" by (simp add: normal_implies_none_def)
    from onTimer_ready_normal_none(2)[of h0 now resp h2] a
    show "last (outputs h2) = pub_mrm_state (mrm_state h2)" by auto
  qed
  from run arb tick show ?thesis by blast
qed

theorem C1_normal_implies_none_witness:
  "(\<exists>h. exec (EmergencyHandler params_es False 0) recovery_run = Inr h
        \<and> state (mrm_state h) = NORMAL \<and> behavior (mrm_state h) = NONE)
   \<and> state (mrm_state normal_with_behavior) = NORMAL
   \<and> behavior (mrm_state normal_with_behavior) = EMERGENCY_STOP
   \<and> (\<exists>h1. operateMrm resp_ok normal_with_behavior = Inr h1
           \<and> behavior (mrm_state h1) = NONE)
   \<and> fst (isDataReady normal_with_behavior)
   \<and> (\<exists>h2. onTimer (1 / 10) resp_ok normal_with_behavior = Inr h2
           \<and> state (mrm_state h2) = NORMAL \<and> behavior (mrm_state h2) = NONE
           \<and> last (outputs h2) = pub_mrm_state (mrm_state h2))"
proof -
  have "thrown (exec (EmergencyHandler params_es False 0) recovery_run) = None"
    by (simp add: recovery_run_def eval_defs)
  then obtain h where h: "exec (EmergencyHandler params_es False 0) recovery_run = Inr h"
    by (rule result_cases)
  have "mrm_of (exec (EmergencyHandler params_es False 0) recovery_run) = Some (NORMAL, NONE)"
    by (simp add: recovery_run_def eval_defs)
  with h have st: "state (mrm_state h) = NORMAL" by (simp add: mrm_of_def)
  have "thrown (onTimer (1 / 10) resp_ok normal_with_behavior) = None"
    by (simp add: normal_with_behavior_def eval_defs)
  then obtain h2 where h2: "onTimer (1 / 10) resp_ok normal_with_behavior = Inr h2"
    by (rule result_cases)
  have "mrm_of (onTimer (1 / 10) resp_ok normal_with_behavior) = Some (NORMAL, NONE)"
    by (simp add: normal_with_behavior_def eval_defs)
  with h2 have st2: "state (mrm_state h2) = NORMAL" by (simp add: mrm_of_def)
  have n0: "state (mrm_state normal_with_behavior) = NORMAL"
    and b0: "behavior (mrm_state normal_with_behavior) = EMERGENCY_STOP"
    and r0: "fst (isDataReady normal_with_behavior)"
    by (simp_all add: normal_with_behavior_def eval_defs)
  show ?thesis
    using C1_normal_implies_none[of params_es False 0 recovery_run h normal_with_behavior
        resp_ok "1 / 10" h2] h st h2 st2 n0 b0 r0
    by auto
qed

section \<open>The behavior field only escalates\<close>

lemma getCurrentMrmBehavior_escalates:
  assumes "getCurrentMrmBehavior h = Inr b"
  shows "b = behavior (mrm_state h) \<or> escalation (behavior (mrm_state h)) b"
  using assms
  by (cases "current_hazard_level h")
     (auto simp: getCurrentMrmBehavior_def escalation_def split: if_splits)

lemma operateMrm_behavior:
  assumes "operateMrm resp h = Inr h'"
  shows "behavior (mrm_state h') = behavior (mrm_state h)
         \<or> escalation (behavior (mrm_state h)) (behavior (mrm_state h'))
         \<or> (behavior (mrm_state h') = NONE \<and> state (mrm_state h') = NORMAL)"
proof (cases "state (mrm_state h) = NORMAL")
  case True
  from operateMrm_NORMAL[OF True, of resp] assms operateMrm_frame(2)[OF assms] True
  show ?thesis by auto
next
  case False
  show ?thesis
  proof (cases "state (mrm_state h) = MRM_OPERATING")
    case True
    from getCurrentMrmBehavior_escalates[OF operateMrm_OPERATING(1)[OF True assms]]
    show ?thesis by auto
  next
    case nop: False
    from operateMrm_other[OF False nop, of resp] assms show ?thesis by auto
  qed
qed

lemma onTimer_behavior:
  assumes "onTimer now resp h = Inr h'"
  shows "behavior (mrm_state h') = behavior (mrm_state h)
         \<or> escalation (behavior (mrm_state h)) (behavior (mrm_state h'))
         \<or> (behavior (mrm_state h') = NONE \<and> state (mrm_state h') = NORMAL)"
proof (cases "fst (isDataReady h)")
  case True
  from onTimer_ready[OF True assms] obtain h2 h3 h4 where
    u: "updateMrmState (checkHazardStatusTimeout now h) = Inr h2" and
    p: "publishControlCommands now h2 = Inr h3" and
    o: "operateMrm resp h3 = Inr h4" and
    h': "h' = publishMrmState now h4" by blast
  have "behavior (mrm_state h3) = behavior (mrm_state h)"
    using updateMrmState_frame(2)[OF u] publishControlCommands_frame(2)[OF p]
    by (simp add: checkHazardStatusTimeout_frame)
  with operateMrm_behavior[OF o] show ?thesis
    by (simp add: h' publishMrmState_frame)
next
  case False
  from onTimer_not_ready[OF False, of now resp] assms show ?thesis
    by (auto simp: rclcpp_log_frame)
qed

lemma step_behavior:
  assumes "step h i = Inr h'"
  shows "behavior (mrm_state h') = behavior (mrm_state h)
         \<or> escalation (behavior (mrm_state h)) (behavior (mrm_state h'))
         \<or> (behavior (mrm_state h') = NONE \<and> state (mrm_state h') = NORMAL)"
proof (cases i)
  case (TimerTick now resp)
  with assms onTimer_behavior show ?thesis by simp
qed (use assms in \<open>auto simp: onHazardStatusStamped_def
      onPrevControlCommand_def onOdometry_def onControlMode_def
      onMrmComfortableStopStatus_def onMrmEmergencyStopStatus_def\<close>)

lemma exec_trace_nonempty: "exec_trace h inputs \<noteq> []"
  by (cases inputs) simp_all

lemma exec_trace_hd: "exec_trace h inputs ! 0 = h"
  by (cases inputs) simp_all

lemma exec_trace_adjacent:
  "Suc k < length (exec_trace h inputs) \<Longrightarrow>
     \<exists>i. step (exec_trace h inputs ! k) i = Inr (exec_trace h inputs ! Suc k)"
proof (induction inputs arbitrary: h k)
  case Nil
  then show ?case by simp
next
  case (Cons i inputs)
  show ?case
  proof (cases "step h i")
    case (Inl e)
    with Cons.prems show ?thesis by simp
  next
    case (Inr h1)
    show ?thesis
    proof (cases k)
      case 0
      with Inr show ?thesis by (auto simp: exec_trace_hd)
    next
      case (Suc k')
      with Cons.prems Inr have "Suc k' < length (exec_trace h1 inputs)" by simp
      from Cons.IH[OF this] Suc Inr show ?thesis by simp
    qed
  qed
qed

lemma emergency_stop_sticks:
  assumes "behavior (mrm_state (exec_trace h inputs ! m)) = EMERGENCY_STOP"
    and "m \<le> n" and "n < length (exec_trace h inputs)"
    and "\<forall>k. m < k \<and> k \<le> n \<longrightarrow> behavior (mrm_state (exec_trace h inputs ! k)) \<noteq> NONE"
  shows "behavior (mrm_state (exec_trace h inputs ! n)) = EMERGENCY_STOP"
  using assms(2-4)
proof (induction n)
  case 0
  with assms(1) show ?case by simp
next
  case (Suc n)
  show ?case
  proof (cases "m = Suc n")
    case True
    with assms(1) show ?thesis by simp
  next
    case False
    with Suc.prems have mn: "m \<le> n" and len: "n < length (exec_trace h inputs)" by simp_all
    from Suc.prems have "\<forall>k. m < k \<and> k \<le> n \<longrightarrow> behavior (mrm_state (exec_trace h inputs ! k)) \<noteq> NONE"
      by simp
    from Suc.IH[OF mn len this]
    have es: "behavior (mrm_state (exec_trace h inputs ! n)) = EMERGENCY_STOP" .
    from exec_trace_adjacent[of n h inputs] Suc.prems obtain i where
      "step (exec_trace h inputs ! n) i = Inr (exec_trace h inputs ! Suc n)" by auto
    from step_behavior[OF this] es Suc.prems(3) mn show ?thesis
      by (auto simp: escalation_def)
  qed
qed


text \<open>
  Claim C2. Whatever the executor delivers, one callback changes the behavior field only
  by a step up in the order NONE, COMFORTABLE_STOP, EMERGENCY_STOP, or by the reset to NONE
  that leaves the state NORMAL; in particular never from EMERGENCY_STOP to
  COMFORTABLE_STOP. Along any run, between a state with behavior EMERGENCY_STOP and a later
  state with behavior COMFORTABLE_STOP there is a state with behavior NONE.
\<close>

theorem C2_behavior_monotone:
  "(step h i = Inr h' \<longrightarrow>
      (behavior (mrm_state h') = behavior (mrm_state h)
       \<or> escalation (behavior (mrm_state h)) (behavior (mrm_state h'))
       \<or> (behavior (mrm_state h') = NONE \<and> state (mrm_state h') = NORMAL))
      \<and> \<not> (behavior (mrm_state h) = EMERGENCY_STOP
             \<and> behavior (mrm_state h') = COMFORTABLE_STOP))
   \<and> (m < n \<and> n < length (exec_trace h0 inputs)
        \<and> behavior (mrm_state (exec_trace h0 inputs ! m)) = EMERGENCY_STOP
        \<and> behavior (mrm_state (exec_trace h0 inputs ! n)) = COMFORTABLE_STOP \<longrightarrow>
        (\<exists>k. m < k \<and> k < n \<and> behavior (mrm_state (exec_trace h0 inputs ! k)) = NONE))"
proof -
  have one: "(behavior (mrm_state h') = behavior (mrm_state h)
       \<or> escalation (behavior (mrm_state h)) (behavior (mrm_state h'))
       \<or> (behavior (mrm_state h') = NONE \<and> state (mrm_state h') = NORMAL))
      \<and> \<not> (behavior (mrm_state h) = EMERGENCY_STOP
             \<and> behavior (mrm_state h') = COMFORTABLE_STOP)"
    if "step h i = Inr h'"
    using step_behavior[OF that] by (auto simp: escalation_def)
  have many: "\<exists>k. m < k \<and> k < n \<and> behavior (mrm_state (exec_trace h0 inputs ! k)) = NONE"
    if a: "m < n \<and> n < length (exec_trace h0 inputs)
        \<and> behavior (mrm_state (exec_trace h0 inputs ! m)) = EMERGENCY_STOP
        \<and> behavior (mrm_state (exec_trace h0 inputs ! n)) = COMFORTABLE_STOP"
  proof (rule ccontr)
    assume no: "\<not> (\<exists>k. m < k \<and> k < n
                    \<and> behavior (mrm_state (exec_trace h0 inputs ! k)) = NONE)"
    with a have "\<forall>k. m < k \<and> k \<le> n \<longrightarrow>
        behavior (mrm_state (exec_trace h0 inputs ! k)) \<noteq> NONE"
      by (metis le_neq_implies_less mrm_behavior.distinct(1))
    from emergency_stop_sticks[of h0 inputs m n, OF _ _ _ this] a show False by simp
  qed
  from one many show ?thesis by blast
qed

theorem C2_behavior_monotone_witness:
  "(\<exists>i. step (exec_trace (EmergencyHandler params_cs False 0) relapse_run ! 9) i
           = Inr (exec_trace (EmergencyHandler params_cs False 0) relapse_run ! 10))
   \<and> escalation
        (behavior (mrm_state (exec_trace (EmergencyHandler params_cs False 0) relapse_run ! 9)))
        (behavior (mrm_state (exec_trace (EmergencyHandler params_cs False 0) relapse_run ! 10)))
   \<and> (6::nat) < 10 \<and> 10 < length (exec_trace (EmergencyHandler params_cs False 0) relapse_run)
   \<and> behavior (mrm_state (exec_trace (EmergencyHandler params_cs False 0) relapse_run ! 6))
        = EMERGENCY_STOP
   \<and> behavior (mrm_state (exec_trace (EmergencyHandler params_cs False 0) relapse_run ! 10))
        = COMFORTABLE_STOP
   \<and> (\<exists>k. 6 < k \<and> k < 10
          \<and> behavior (mrm_state (exec_trace (EmergencyHandler params_cs False 0) relapse_run ! k))
              = NONE)"
proof -
  let ?tr = "exec_trace (EmergencyHandler params_cs False 0) relapse_run"
  have len: "length ?tr = 11"
    by (simp add: relapse_run_def recovery_run_def eval_defs)
  have b: "map (\<lambda>h. behavior (mrm_state h)) ?tr
      = [NONE, NONE, NONE, NONE, NONE, NONE, EMERGENCY_STOP, EMERGENCY_STOP, NONE, NONE,
         COMFORTABLE_STOP]"
    by (simp add: relapse_run_def recovery_run_def eval_defs)
  have nth: "behavior (mrm_state (?tr ! k)) = map (\<lambda>h. behavior (mrm_state h)) ?tr ! k"
    if "k < 11" for k using that len by simp
  have b6: "behavior (mrm_state (?tr ! 6)) = EMERGENCY_STOP"
    and b9: "behavior (mrm_state (?tr ! 9)) = NONE"
    and b10: "behavior (mrm_state (?tr ! 10)) = COMFORTABLE_STOP"
    by (simp_all add: nth b)
  from exec_trace_adjacent[of 9 "EmergencyHandler params_cs False 0" relapse_run] len
  obtain i where i: "step (?tr ! 9) i = Inr (?tr ! 10)" by auto
  from C2_behavior_monotone[of "?tr ! 9" i "?tr ! 10" 6 10
      "EmergencyHandler params_cs False 0" relapse_run] i b6 b9 b10 len
  show ?thesis by (auto simp: escalation_def)
qed

section \<open>Arbitration runs in MRM_OPERATING only\<close>

lemmas run_defs = recovery_run_def relapse_run_def operating_cs_run_def escalation_run_def
  stopped_escalation_run_def succeeded_run_def requests_of_def level_of_def

lemma getCurrentMrmBehavior_cong:
  assumes "snapshots h = snapshots h'" "is_hazard_status_timeout h = is_hazard_status_timeout h'"
    "behavior (mrm_state h) = behavior (mrm_state h')"
  shows "getCurrentMrmBehavior h = getCurrentMrmBehavior h'"
    "current_hazard_level h = current_hazard_level h'"
  using assms
  by (simp_all add: getCurrentMrmBehavior_def current_hazard_level_def snapshots_def
        split: option.splits)

lemma isEmergency_cong:
  assumes "snapshots h = snapshots h'" "is_hazard_status_timeout h = is_hazard_status_timeout h'"
  shows "isEmergency h = isEmergency h'" "isStopped h = isStopped h'"
  using assms by (simp_all add: isEmergency_def isStopped_def snapshots_def split: option.splits)

text \<open>
  Claim C3 says that COMFORTABLE_STOP escalates to EMERGENCY_STOP under a single point
  fault in MRM_SUCCEEDED as it does in MRM_OPERATING. It does not: in the run below the
  vehicle has stopped under the comfortable stop, the state is MRM_SUCCEEDED, the report
  worsens to SINGLE_POINT_FAULT, and after the next tick the behavior is still
  COMFORTABLE_STOP; the only request ever sent is the call of the comfortable stop.
\<close>

theorem C3_no_escalation_after_success:
  "mrm_of (exec (EmergencyHandler params_cs False 0) succeeded_run)
     = Some (MRM_SUCCEEDED, COMFORTABLE_STOP)
   \<and> level_of (exec (EmergencyHandler params_cs False 0)
                  (succeeded_run @ [TimerTick (3 / 10) resp_ok]))
     = Some SINGLE_POINT_FAULT
   \<and> mrm_of (exec (EmergencyHandler params_cs False 0)
                (succeeded_run @ [TimerTick (3 / 10) resp_ok]))
     = Some (MRM_SUCCEEDED, COMFORTABLE_STOP)
   \<and> requests_of (exec (EmergencyHandler params_cs False 0)
                (succeeded_run @ [TimerTick (3 / 10) resp_ok]))
     = Some [async_send_request client_mrm_comfortable_stop True]"
  by (simp add: run_defs eval_defs)


lemma onTimer_ready_frame:
  assumes "fst (isDataReady h)" "onTimer now resp h = Inr h'"
  obtains h2 h3 h4 where
    "updateMrmState (checkHazardStatusTimeout now h) = Inr h2"
    "publishControlCommands now h2 = Inr h3"
    "operateMrm resp h3 = Inr h4"
    "h' = publishMrmState now h4"
    "snapshots h3 = snapshots h"
    "is_hazard_status_timeout h3 = is_hazard_status_timeout (checkHazardStatusTimeout now h)"
    "behavior (mrm_state h3) = behavior (mrm_state h)"
    "state (mrm_state h3) = state (mrm_state h2)"
    "state (mrm_state h') = state (mrm_state h2)"
    "outputs h2 = outputs h"
proof -
  from onTimer_ready[OF assms] obtain h2 h3 h4 where
    u: "updateMrmState (checkHazardStatusTimeout now h) = Inr h2" and
    p: "publishControlCommands now h2 = Inr h3" and
    o: "operateMrm resp h3 = Inr h4" and
    h': "h' = publishMrmState now h4" by blast
  have "snapshots h3 = snapshots h"
    using updateMrmState_frame(1)[OF u] publishControlCommands_frame(1)[OF p]
    by (simp add: checkHazardStatusTimeout_frame)
  moreover have "is_hazard_status_timeout h3
      = is_hazard_status_timeout (checkHazardStatusTimeout now h)"
    using updateMrmState_frame(4)[OF u] publishControlCommands_frame(3)[OF p] by simp
  moreover have "behavior (mrm_state h3) = behavior (mrm_state h)"
    using updateMrmState_frame(2)[OF u] publishControlCommands_frame(2)[OF p]
    by (simp add: checkHazardStatusTimeout_frame)
  moreover have "state (mrm_state h3) = state (mrm_state h2)"
    using publishControlCommands_frame(2)[OF p] by simp
  moreover have "state (mrm_state h') = state (mrm_state h2)"
    using publishControlCommands_frame(2)[OF p] operateMrm_frame(2)[OF o]
    by (simp add: h' publishMrmState_frame)
  moreover have "outputs h2 = outputs h"
    using updateMrmState_frame(5)[OF u] by (simp add: checkHazardStatusTimeout_frame)
  ultimately show ?thesis using that u p o h' by blast
qed

text \<open>
  Claim C3, as amended. On a tick that passes the readiness gate, the selection and
  escalation rules are applied when the state after the state machine step is
  MRM_OPERATING: the committed behavior is the one \<open>getCurrentMrmBehavior\<close> computes from
  the fresh staleness, so COMFORTABLE_STOP with level SINGLE_POINT_FAULT becomes
  EMERGENCY_STOP. When that state is MRM_SUCCEEDED or MRM_FAILED the arbitration step does
  nothing: the behavior stays as it was and the tick sends no request.
\<close>

theorem C3_arbitration_in_operating_only:
  "fst (isDataReady h) \<and> onTimer now resp h = Inr h' \<longrightarrow>
     (state (mrm_state h') = MRM_OPERATING \<longrightarrow>
        getCurrentMrmBehavior (checkHazardStatusTimeout now h) = Inr (behavior (mrm_state h'))
        \<and> (behavior (mrm_state h) = COMFORTABLE_STOP
             \<and> current_hazard_level (checkHazardStatusTimeout now h) = Inr SINGLE_POINT_FAULT
            \<longrightarrow> behavior (mrm_state h') = EMERGENCY_STOP))
     \<and> (state (mrm_state h') = MRM_SUCCEEDED \<or> state (mrm_state h') = MRM_FAILED \<longrightarrow>
          behavior (mrm_state h') = behavior (mrm_state h)
          \<and> filter is_request (outputs h') = filter is_request (outputs h))"
proof (intro impI, elim conjE)
  assume r: "fst (isDataReady h)" and t: "onTimer now resp h = Inr h'"
  from onTimer_ready_frame[OF r t] obtain h2 h3 h4 where
    p: "publishControlCommands now h2 = Inr h3" and
    o: "operateMrm resp h3 = Inr h4" and
    h': "h' = publishMrmState now h4" and
    sn: "snapshots h3 = snapshots h" and
    st: "is_hazard_status_timeout h3 = is_hazard_status_timeout (checkHazardStatusTimeout now h)" and
    bh: "behavior (mrm_state h3) = behavior (mrm_state h)" and
    s3: "state (mrm_state h3) = state (mrm_state h2)" and
    s': "state (mrm_state h') = state (mrm_state h2)" and
    o2: "outputs h2 = outputs h"
    by blast
  let ?c = "checkHazardStatusTimeout now h"
  have cong: "getCurrentMrmBehavior h3 = getCurrentMrmBehavior ?c"
    by (rule getCurrentMrmBehavior_cong(1))
       (simp_all add: sn st bh checkHazardStatusTimeout_frame)
  have b': "behavior (mrm_state h') = behavior (mrm_state h4)"
    by (simp add: h' publishMrmState_frame)
  have op: "getCurrentMrmBehavior ?c = Inr (behavior (mrm_state h'))
        \<and> (behavior (mrm_state h) = COMFORTABLE_STOP
             \<and> current_hazard_level ?c = Inr SINGLE_POINT_FAULT
            \<longrightarrow> behavior (mrm_state h') = EMERGENCY_STOP)"
    if "state (mrm_state h') = MRM_OPERATING"
  proof -
    from that s' s3 have "state (mrm_state h3) = MRM_OPERATING" by simp
    from operateMrm_OPERATING(1)[OF this o] cong b'
    have g: "getCurrentMrmBehavior ?c = Inr (behavior (mrm_state h'))" by simp
    then show ?thesis
      by (auto simp: getCurrentMrmBehavior_def checkHazardStatusTimeout_frame)
  qed
  have idle: "behavior (mrm_state h') = behavior (mrm_state h)
          \<and> filter is_request (outputs h') = filter is_request (outputs h)"
    if "state (mrm_state h') = MRM_SUCCEEDED \<or> state (mrm_state h') = MRM_FAILED"
  proof -
    from that s' s3 have "state (mrm_state h3) \<noteq> NORMAL" "state (mrm_state h3) \<noteq> MRM_OPERATING"
      by auto
    from operateMrm_other[OF this, of resp] o
    have "mrm_state h4 = mrm_state h3" "outputs h4 = outputs h3" by auto
    moreover from publishControlCommands_frame(4)[OF p] obtain hz g where
      "outputs h3 = outputs h2 @ [pub_hazard_cmd hz, pub_gear_cmd now g]" by blast
    ultimately show ?thesis
      using bh b' o2 by (simp add: h' publishMrmState_frame(5))
  qed
  from op idle
  show "(state (mrm_state h') = MRM_OPERATING \<longrightarrow>
        getCurrentMrmBehavior ?c = Inr (behavior (mrm_state h'))
        \<and> (behavior (mrm_state h) = COMFORTABLE_STOP
             \<and> current_hazard_level ?c = Inr SINGLE_POINT_FAULT
            \<longrightarrow> behavior (mrm_state h') = EMERGENCY_STOP))
     \<and> (state (mrm_state h') = MRM_SUCCEEDED \<or> state (mrm_state h') = MRM_FAILED \<longrightarrow>
          behavior (mrm_state h') = behavior (mrm_state h)
          \<and> filter is_request (outputs h') = filter is_request (outputs h))"
    by blast
qed


theorem C3_arbitration_in_operating_only_witness:
  "(\<exists>h h'. exec (EmergencyHandler params_cs False 0) escalation_run = Inr h
       \<and> fst (isDataReady h) \<and> onTimer (2 / 10) resp_ok h = Inr h'
       \<and> state (mrm_state h') = MRM_OPERATING
       \<and> behavior (mrm_state h) = COMFORTABLE_STOP
       \<and> current_hazard_level (checkHazardStatusTimeout (2 / 10) h) = Inr SINGLE_POINT_FAULT
       \<and> behavior (mrm_state h') = EMERGENCY_STOP)
   \<and> (\<exists>h h'. exec (EmergencyHandler params_cs False 0) succeeded_run = Inr h
       \<and> fst (isDataReady h) \<and> onTimer (3 / 10) resp_ok h = Inr h'
       \<and> state (mrm_state h') = MRM_SUCCEEDED
       \<and> behavior (mrm_state h') = behavior (mrm_state h)
       \<and> filter is_request (outputs h') = filter is_request (outputs h))"
proof -
  let ?a = "projr (exec (EmergencyHandler params_cs False 0) escalation_run)"
  let ?a' = "projr (onTimer (2 / 10) resp_ok ?a)"
  let ?b = "projr (exec (EmergencyHandler params_cs False 0) succeeded_run)"
  let ?b' = "projr (onTimer (3 / 10) resp_ok ?b)"
  have a: "exec (EmergencyHandler params_cs False 0) escalation_run = Inr ?a"
    "fst (isDataReady ?a)" "behavior (mrm_state ?a) = COMFORTABLE_STOP"
    "current_hazard_level (checkHazardStatusTimeout (2 / 10) ?a) = Inr SINGLE_POINT_FAULT"
    by (simp_all add: run_defs eval_defs)
  have a': "onTimer (2 / 10) resp_ok ?a = Inr ?a'" "state (mrm_state ?a') = MRM_OPERATING"
    by (simp_all add: run_defs eval_defs)
  have b: "exec (EmergencyHandler params_cs False 0) succeeded_run = Inr ?b"
    "fst (isDataReady ?b)"
    by (simp_all add: run_defs eval_defs)
  have b': "onTimer (3 / 10) resp_ok ?b = Inr ?b'" "state (mrm_state ?b') = MRM_SUCCEEDED"
    by (simp_all add: run_defs eval_defs)
  from C3_arbitration_in_operating_only[of ?a "2 / 10" resp_ok ?a'] a a'
  have "behavior (mrm_state ?a') = EMERGENCY_STOP" by simp
  moreover
  from C3_arbitration_in_operating_only[of ?b "3 / 10" resp_ok ?b'] b b'
  have "behavior (mrm_state ?b') = behavior (mrm_state ?b)
        \<and> filter is_request (outputs ?b') = filter is_request (outputs ?b)" by simp
  ultimately show ?thesis using a a' b b' by blast
qed

section \<open>The order of the steps of a tick\<close>

text \<open>
  Claim C4 places the publication of the hazard light and gear commands after the
  arbitration step. In the code it comes before: in the first tick of scenario A the two
  commands leave the node before the request to the emergency stop controller, whereas
  the order of the specification would send the request first.
\<close>

theorem C4_commands_before_arbitration:
  "outputs_of (and_then (exec (EmergencyHandler params_es False 0) scenario_a_run)
                 (onTimer (1 / 10) resp_ok))
     = Some [pub_hazard_cmd ENABLE, pub_gear_cmd (1 / 10) DRIVE,
             async_send_request client_mrm_emergency_stop True,
             pub_mrm_state \<lparr> stamp = 1 / 10, state = MRM_OPERATING,
                             behavior = EMERGENCY_STOP \<rparr>]
   \<and> outputs_of (and_then (exec (EmergencyHandler params_es False 0) scenario_a_run)
                 (onTimer_spec_order (1 / 10) resp_ok))
     = Some [async_send_request client_mrm_emergency_stop True,
             pub_hazard_cmd ENABLE, pub_gear_cmd (1 / 10) DRIVE,
             pub_mrm_state \<lparr> stamp = 1 / 10, state = MRM_OPERATING,
                             behavior = EMERGENCY_STOP \<rparr>]
   \<and> and_then (exec (EmergencyHandler params_es False 0) scenario_a_run)
                 (onTimer (1 / 10) resp_ok)
     \<noteq> and_then (exec (EmergencyHandler params_es False 0) scenario_a_run)
                 (onTimer_spec_order (1 / 10) resp_ok)"
  by (simp add: scenario_a_run_def and_then_def onTimer_spec_order_def eval_defs)

text \<open>
  Claim C4, as amended. A tick that passes the readiness gate recomputes the staleness,
  runs the state machine, publishes the hazard light and gear commands, runs the
  arbitration (whose requests follow the two commands on the wire) and publishes the MRM
  state last, in this order.
\<close>

theorem C4_tick_order:
  "fst (isDataReady h) \<and> onTimer now resp h = Inr h' \<longrightarrow>
     (\<exists>h2 h3 h4 hz g reqs.
        updateMrmState (checkHazardStatusTimeout now h) = Inr h2
        \<and> publishControlCommands now h2 = Inr h3
        \<and> outputs h3 = outputs h @ [pub_hazard_cmd hz, pub_gear_cmd now g]
        \<and> operateMrm resp h3 = Inr h4
        \<and> outputs h4 = outputs h3 @ reqs \<and> list_all is_request reqs
        \<and> h' = publishMrmState now h4
        \<and> outputs h' = outputs h4 @ [pub_mrm_state (mrm_state h')])"
proof (intro impI, elim conjE)
  assume r: "fst (isDataReady h)" and t: "onTimer now resp h = Inr h'"
  from onTimer_ready_frame[OF r t] obtain h2 h3 h4 where
    u: "updateMrmState (checkHazardStatusTimeout now h) = Inr h2" and
    p: "publishControlCommands now h2 = Inr h3" and
    o: "operateMrm resp h3 = Inr h4" and
    h': "h' = publishMrmState now h4" and
    o2: "outputs h2 = outputs h"
    by blast
  from publishControlCommands_frame(4)[OF p] o2 obtain hz g where
    c: "outputs h3 = outputs h @ [pub_hazard_cmd hz, pub_gear_cmd now g]" by auto
  from operateMrm_outputs[OF o] obtain reqs where
    q: "outputs h4 = outputs h3 @ reqs" "list_all is_request reqs" by blast
  have "outputs h' = outputs h4 @ [pub_mrm_state (mrm_state h')]"
    unfolding h' by (rule publishMrmState_frame(5))
  with u p o h' c q show "\<exists>h2 h3 h4 hz g reqs.
        updateMrmState (checkHazardStatusTimeout now h) = Inr h2
        \<and> publishControlCommands now h2 = Inr h3
        \<and> outputs h3 = outputs h @ [pub_hazard_cmd hz, pub_gear_cmd now g]
        \<and> operateMrm resp h3 = Inr h4
        \<and> outputs h4 = outputs h3 @ reqs \<and> list_all is_request reqs
        \<and> h' = publishMrmState now h4
        \<and> outputs h' = outputs h4 @ [pub_mrm_state (mrm_state h')]"
    by blast
qed

theorem C4_tick_order_witness:
  "\<exists>h h'. exec (EmergencyHandler params_es False 0) scenario_a_run = Inr h
     \<and> fst (isDataReady h) \<and> onTimer (1 / 10) resp_ok h = Inr h'
     \<and> (\<exists>h2 h3 h4 hz g reqs.
          updateMrmState (checkHazardStatusTimeout (1 / 10) h) = Inr h2
          \<and> publishControlCommands (1 / 10) h2 = Inr h3
          \<and> outputs h3 = outputs h @ [pub_hazard_cmd hz, pub_gear_cmd (1 / 10) g]
          \<and> operateMrm resp_ok h3 = Inr h4
          \<and> outputs h4 = outputs h3 @ reqs \<and> list_all is_request reqs
          \<and> h' = publishMrmState (1 / 10) h4
          \<and> outputs h' = outputs h4 @ [pub_mrm_state (mrm_state h')])"
proof -
  let ?a = "projr (exec (EmergencyHandler params_es False 0) scenario_a_run)"
  let ?a' = "projr (onTimer (1 / 10) resp_ok ?a)"
  have a: "exec (EmergencyHandler params_es False 0) scenario_a_run = Inr ?a"
    "fst (isDataReady ?a)" "onTimer (1 / 10) resp_ok ?a = Inr ?a'"
    by (simp_all add: scenario_a_run_def eval_defs)
  from C4_tick_order[of ?a "1 / 10" resp_ok ?a'] a show ?thesis by blast
qed

section \<open>Values outside the enumerations\<close>

lemmas handler_defs = quiet_handler_def alarmed_handler_def invalid_state_handler_def
  invalid_behavior_handler_def logged_of_def

text \<open>
  Claim C5 says that every component treats a state or behavior outside the enumeration
  as a fatal error. The arbitration step does not: on a state outside the enumeration
  \<open>operateMrm\<close> logs a warning and returns. Nor does the tick: with the last report
  harmless and debug logging off, a tick on such a state throws nothing, logs nothing and
  ends in NORMAL; and a tick in MRM_OPERATING on a behavior outside the enumeration throws
  nothing, logs nothing and publishes the value as it is.
\<close>

theorem C5_invalid_values_tolerated:
  "\<not> valid_state (state (mrm_state invalid_state_handler))
   \<and> operateMrm resp_ok invalid_state_handler
       = Inr (rclcpp_log (LOG_WARN ''invalid MRM state'') invalid_state_handler)
   \<and> thrown (onTimer (1 / 10) resp_ok invalid_state_handler) = None
   \<and> mrm_of (onTimer (1 / 10) resp_ok invalid_state_handler) = Some (NORMAL, NONE)
   \<and> logged_of (onTimer (1 / 10) resp_ok invalid_state_handler) = Some []
   \<and> \<not> valid_behavior (behavior (mrm_state invalid_behavior_handler))
   \<and> thrown (onTimer (1 / 10) resp_ok invalid_behavior_handler) = None
   \<and> mrm_of (onTimer (1 / 10) resp_ok invalid_behavior_handler)
       = Some (MRM_OPERATING, BEHAVIOR_OTHER 0)
   \<and> logged_of (onTimer (1 / 10) resp_ok invalid_behavior_handler) = Some []"
  by (simp add: handler_defs valid_state_def valid_behavior_def eval_defs)

lemma valid_after_escalation:
  "valid_behavior b \<Longrightarrow> b' = b \<or> escalation b b' \<or> (b' = NONE \<and> s = NORMAL) \<Longrightarrow> valid_behavior b'"
  by (auto simp: valid_behavior_def escalation_def)

lemma onTimer_valid:
  assumes "onTimer now resp h = Inr h'" "valid_state (state (mrm_state h))"
  shows "valid_state (state (mrm_state h'))"
proof (cases "fst (isDataReady h)")
  case True
  from onTimer_ready_frame[OF True assms(1)] obtain h2 where
    u: "updateMrmState (checkHazardStatusTimeout now h) = Inr h2" and
    s': "state (mrm_state h') = state (mrm_state h2)" by blast
  from updateMrmState_emergency[OF u] obtain e where
    "isEmergency (checkHazardStatusTimeout now h) = Inr e" by blast
  from updateMrmState_state[OF u this] assms(2) s' show ?thesis
    by (auto simp: valid_state_def checkHazardStatusTimeout_frame split: if_splits)
next
  case False
  from onTimer_not_ready[OF False, of now resp] assms show ?thesis
    by (auto simp: rclcpp_log_frame)
qed

lemma step_valid:
  assumes "step h i = Inr h'" "valid_state (state (mrm_state h))"
    "valid_behavior (behavior (mrm_state h))"
  shows "valid_state (state (mrm_state h')) \<and> valid_behavior (behavior (mrm_state h'))"
proof
  show "valid_behavior (behavior (mrm_state h'))"
    using valid_after_escalation[OF assms(3) step_behavior[OF assms(1)]] .
  show "valid_state (state (mrm_state h'))"
  proof (cases i)
    case (TimerTick now resp)
    with assms onTimer_valid show ?thesis by simp
  qed (use assms in \<open>auto simp: onHazardStatusStamped_def
      onPrevControlCommand_def onOdometry_def onControlMode_def
      onMrmComfortableStopStatus_def onMrmEmergencyStopStatus_def\<close>)
qed

lemma exec_valid:
  "exec h inputs = Inr h' \<Longrightarrow> valid_state (state (mrm_state h)) \<Longrightarrow>
     valid_behavior (behavior (mrm_state h)) \<Longrightarrow>
     valid_state (state (mrm_state h')) \<and> valid_behavior (behavior (mrm_state h'))"
proof (induction inputs arbitrary: h)
  case Nil
  then show ?case by simp
next
  case (Cons i inputs)
  then show ?case
    by (cases "step h i") (auto dest: step_valid)
qed

lemma invalid_state_machine:
  assumes "\<not> valid_state (state (mrm_state h))"
  shows "isEmergency h = Inr True \<Longrightarrow>
           updateMrmState h = Inl (runtime_error_invalid_state (state (mrm_state h)))"
    "isEmergency h = Inr False \<Longrightarrow> debug_enabled h \<Longrightarrow>
           updateMrmState h = Inl (runtime_error_invalid_state (state (mrm_state h)))"
    "isEmergency h = Inr False \<Longrightarrow> \<not> debug_enabled h \<Longrightarrow>
           updateMrmState h = Inr (set_state NORMAL h)"
    "operateMrm resp h = Inr (rclcpp_log (LOG_WARN ''invalid MRM state'') h)"
  using assms
  by (simp_all add: valid_state_def updateMrmState_def transitionTo_def state2string_def
        operateMrm_def)

lemma invalid_behavior_invoker:
  assumes "\<not> valid_behavior b"
  shows "cancelMrmBehavior resp b h = rclcpp_log (LOG_WARN ''invalid MRM behavior'') h"
    "callMrmBehavior resp b h = rclcpp_log (LOG_WARN ''invalid MRM behavior'') h"
    "behavior (mrm_state h) = b \<Longrightarrow> hazard_status_stamped h \<noteq> None \<Longrightarrow>
       getCurrentMrmBehavior h = Inr b"
  using assms
  by (auto simp: valid_behavior_def cancelMrmBehavior_def callMrmBehavior_def
        getCurrentMrmBehavior_def current_hazard_level_def)


text \<open>
  Claim C5, as amended. On a state outside the enumeration the state machine step throws
  a runtime error when the handler is in emergency, and also when it is not but debug
  logging is enabled (the transition log line names the old state); with debug logging off
  and no emergency it moves the state to NORMAL without an error. The arbitration step logs
  a warning for such a state and returns. For a behavior outside the enumeration the
  invoker's cancel and call log a warning and send nothing, and \<open>getCurrentMrmBehavior\<close>
  returns the value unchanged. No run of the node from its constructor ever stores a state
  or behavior outside the enumerations.
\<close>

theorem C5_invalid_values:
  "(\<not> valid_state (state (mrm_state h)) \<longrightarrow>
      (isEmergency h = Inr True \<longrightarrow>
         updateMrmState h = Inl (runtime_error_invalid_state (state (mrm_state h))))
      \<and> (isEmergency h = Inr False \<and> debug_enabled h \<longrightarrow>
         updateMrmState h = Inl (runtime_error_invalid_state (state (mrm_state h))))
      \<and> (isEmergency h = Inr False \<and> \<not> debug_enabled h \<longrightarrow>
         updateMrmState h = Inr (set_state NORMAL h))
      \<and> operateMrm resp h = Inr (rclcpp_log (LOG_WARN ''invalid MRM state'') h))
   \<and> (\<not> valid_behavior b \<longrightarrow>
      cancelMrmBehavior resp b h = rclcpp_log (LOG_WARN ''invalid MRM behavior'') h
      \<and> callMrmBehavior resp b h = rclcpp_log (LOG_WARN ''invalid MRM behavior'') h
      \<and> (behavior (mrm_state h) = b \<and> hazard_status_stamped h \<noteq> None \<longrightarrow>
           getCurrentMrmBehavior h = Inr b))
   \<and> (exec (EmergencyHandler p dbg t0) inputs = Inr h' \<longrightarrow>
      valid_state (state (mrm_state h')) \<and> valid_behavior (behavior (mrm_state h')))"
proof -
  have "valid_state (state (mrm_state (EmergencyHandler p dbg t0)))"
    "valid_behavior (behavior (mrm_state (EmergencyHandler p dbg t0)))"
    by (simp_all add: EmergencyHandler_def valid_state_def valid_behavior_def)
  then have "valid_state (state (mrm_state h')) \<and> valid_behavior (behavior (mrm_state h'))"
    if "exec (EmergencyHandler p dbg t0) inputs = Inr h'"
    using exec_valid[OF that] by simp
  moreover have "\<not> valid_state (state (mrm_state h)) \<longrightarrow>
      (isEmergency h = Inr True \<longrightarrow>
         updateMrmState h = Inl (runtime_error_invalid_state (state (mrm_state h))))
      \<and> (isEmergency h = Inr False \<and> debug_enabled h \<longrightarrow>
         updateMrmState h = Inl (runtime_error_invalid_state (state (mrm_state h))))
      \<and> (isEmergency h = Inr False \<and> \<not> debug_enabled h \<longrightarrow>
         updateMrmState h = Inr (set_state NORMAL h))
      \<and> operateMrm resp h = Inr (rclcpp_log (LOG_WARN ''invalid MRM state'') h)"
    by (simp add: invalid_state_machine)
  moreover have "\<not> valid_behavior b \<longrightarrow>
      cancelMrmBehavior resp b h = rclcpp_log (LOG_WARN ''invalid MRM behavior'') h
      \<and> callMrmBehavior resp b h = rclcpp_log (LOG_WARN ''invalid MRM behavior'') h
      \<and> (behavior (mrm_state h) = b \<and> hazard_status_stamped h \<noteq> None \<longrightarrow>
           getCurrentMrmBehavior h = Inr b)"
    by (simp add: invalid_behavior_invoker)
  ultimately show ?thesis by blast
qed

theorem C5_invalid_values_witness:
  "\<not> valid_state (state (mrm_state (set_state (STATE_OTHER 0) alarmed_handler)))
   \<and> isEmergency (set_state (STATE_OTHER 0) alarmed_handler) = Inr True
   \<and> updateMrmState (set_state (STATE_OTHER 0) alarmed_handler)
       = Inl (runtime_error_invalid_state (STATE_OTHER 0))
   \<and> \<not> valid_state (state (mrm_state (invalid_state_handler\<lparr> debug_enabled := True \<rparr>)))
   \<and> isEmergency (invalid_state_handler\<lparr> debug_enabled := True \<rparr>) = Inr False
   \<and> debug_enabled (invalid_state_handler\<lparr> debug_enabled := True \<rparr>)
   \<and> updateMrmState (invalid_state_handler\<lparr> debug_enabled := True \<rparr>)
       = Inl (runtime_error_invalid_state (STATE_OTHER 0))
   \<and> \<not> valid_state (state (mrm_state invalid_state_handler))
   \<and> isEmergency invalid_state_handler = Inr False
   \<and> \<not> debug_enabled invalid_state_handler
   \<and> updateMrmState invalid_state_handler = Inr (set_state NORMAL invalid_state_handler)
   \<and> operateMrm resp_ok invalid_state_handler
       = Inr (rclcpp_log (LOG_WARN ''invalid MRM state'') invalid_state_handler)
   \<and> \<not> valid_behavior (BEHAVIOR_OTHER 0)
   \<and> behavior (mrm_state invalid_behavior_handler) = BEHAVIOR_OTHER 0
   \<and> hazard_status_stamped invalid_behavior_handler \<noteq> None
   \<and> cancelMrmBehavior resp_ok (BEHAVIOR_OTHER 0) invalid_behavior_handler
       = rclcpp_log (LOG_WARN ''invalid MRM behavior'') invalid_behavior_handler
   \<and> getCurrentMrmBehavior invalid_behavior_handler = Inr (BEHAVIOR_OTHER 0)
   \<and> (\<exists>h'. exec (EmergencyHandler params_es False 0) recovery_run = Inr h'
          \<and> valid_state (state (mrm_state h')) \<and> valid_behavior (behavior (mrm_state h')))"
proof -
  let ?r = "projr (exec (EmergencyHandler params_es False 0) recovery_run)"
  have r: "exec (EmergencyHandler params_es False 0) recovery_run = Inr ?r"
    by (simp add: run_defs eval_defs)
  have a: "\<not> valid_state (state (mrm_state (set_state (STATE_OTHER 0) alarmed_handler)))"
    "isEmergency (set_state (STATE_OTHER 0) alarmed_handler) = Inr True"
    "state (mrm_state (set_state (STATE_OTHER 0) alarmed_handler)) = STATE_OTHER 0"
    by (simp_all add: handler_defs valid_state_def eval_defs)
  have d: "\<not> valid_state (state (mrm_state (invalid_state_handler\<lparr> debug_enabled := True \<rparr>)))"
    "isEmergency (invalid_state_handler\<lparr> debug_enabled := True \<rparr>) = Inr False"
    "debug_enabled (invalid_state_handler\<lparr> debug_enabled := True \<rparr>)"
    "state (mrm_state (invalid_state_handler\<lparr> debug_enabled := True \<rparr>)) = STATE_OTHER 0"
    by (simp_all add: handler_defs valid_state_def eval_defs)
  have q: "\<not> valid_state (state (mrm_state invalid_state_handler))"
    "isEmergency invalid_state_handler = Inr False"
    "\<not> debug_enabled invalid_state_handler"
    by (simp_all add: handler_defs valid_state_def eval_defs)
  have b: "\<not> valid_behavior (BEHAVIOR_OTHER 0)"
    "behavior (mrm_state invalid_behavior_handler) = BEHAVIOR_OTHER 0"
    "hazard_status_stamped invalid_behavior_handler \<noteq> None"
    by (simp_all add: handler_defs valid_behavior_def eval_defs)
  from C5_invalid_values[of "set_state (STATE_OTHER 0) alarmed_handler" resp_ok
      "BEHAVIOR_OTHER 0" params_es False 0 recovery_run ?r] a r
  have 1: "updateMrmState (set_state (STATE_OTHER 0) alarmed_handler)
       = Inl (runtime_error_invalid_state (STATE_OTHER 0))"
    "valid_state (state (mrm_state ?r)) \<and> valid_behavior (behavior (mrm_state ?r))"
    by simp_all
  from C5_invalid_values[of "invalid_state_handler\<lparr> debug_enabled := True \<rparr>" resp_ok
      "BEHAVIOR_OTHER 0" params_es False 0 recovery_run ?r] d
  have 2: "updateMrmState (invalid_state_handler\<lparr> debug_enabled := True \<rparr>)
       = Inl (runtime_error_invalid_state (STATE_OTHER 0))"
    by simp
  from C5_invalid_values[of invalid_state_handler resp_ok
      "BEHAVIOR_OTHER 0" params_es False 0 recovery_run ?r] q
  have 3: "updateMrmState invalid_state_handler = Inr (set_state NORMAL invalid_state_handler)"
    "operateMrm resp_ok invalid_state_handler
       = Inr (rclcpp_log (LOG_WARN ''invalid MRM state'') invalid_state_handler)"
    by simp_all
  from C5_invalid_values[of invalid_behavior_handler resp_ok
      "BEHAVIOR_OTHER 0" params_es False 0 recovery_run ?r] b
  have 4: "cancelMrmBehavior resp_ok (BEHAVIOR_OTHER 0) invalid_behavior_handler
       = rclcpp_log (LOG_WARN ''invalid MRM behavior'') invalid_behavior_handler"
    "getCurrentMrmBehavior invalid_behavior_handler = Inr (BEHAVIOR_OTHER 0)"
    by simp_all
  from a(1,2) d(1-3) q b r 1 2 3 4 show ?thesis by blast
qed

section \<open>The readiness gate\<close>

lemmas callback_defs = onHazardStatusStamped_def onPrevControlCommand_def onOdometry_def
  onControlMode_def onMrmComfortableStopStatus_def onMrmEmergencyStopStatus_def

lemma exec_blocked:
  assumes gate: "\<And>h. P h \<Longrightarrow> \<not> fst (isDataReady h)"
    and logs: "\<And>h l. P h \<Longrightarrow> P (rclcpp_log l h)"
    and keeps: "\<And>h i h'. P h \<Longrightarrow> Q i \<Longrightarrow> \<forall>now resp. i \<noteq> TimerTick now resp \<Longrightarrow>
                  step h i = Inr h' \<Longrightarrow> P h'"
    and start: "P h"
    and ins: "\<forall>i\<in>set inputs. Q i"
  shows "\<exists>h'. exec h inputs = Inr h' \<and> P h' \<and> outputs h' = outputs h
            \<and> mrm_state h' = mrm_state h"
  using start ins
proof (induction inputs arbitrary: h)
  case Nil
  then show ?case by simp
next
  case (Cons i inputs)
  from Cons.prems have q: "Q i" by simp
  have "\<exists>h1. step h i = Inr h1 \<and> P h1 \<and> outputs h1 = outputs h \<and> mrm_state h1 = mrm_state h"
  proof (cases "\<exists>now resp. i = TimerTick now resp")
    case True
    then obtain now resp where t: "i = TimerTick now resp" by blast
    from onTimer_not_ready[OF gate[OF Cons.prems(1)], of now resp] t logs[OF Cons.prems(1)]
    show ?thesis by (auto simp: rclcpp_log_frame)
  next
    case False
    then have nt: "\<forall>now resp. i \<noteq> TimerTick now resp" by simp
    then have "\<exists>h1. step h i = Inr h1 \<and> outputs h1 = outputs h \<and> mrm_state h1 = mrm_state h"
      by (cases i) (simp_all add: callback_defs)
    with keeps[OF Cons.prems(1) q nt] show ?thesis by blast
  qed
  then obtain h1 where s: "step h i = Inr h1" and p: "P h1" and f: "outputs h1 = outputs h"
    "mrm_state h1 = mrm_state h" by blast
  from Cons.IH[OF p] Cons.prems(2) s f show ?case by simp
qed

lemma no_report_blocked:
  assumes "\<forall>i\<in>set inputs. \<not> is_fault_report i" "hazard_status_stamped h = None"
  shows "\<exists>h'. exec h inputs = Inr h' \<and> hazard_status_stamped h' = None
            \<and> outputs h' = outputs h \<and> mrm_state h' = mrm_state h"
proof (rule exec_blocked[where P = "\<lambda>h. hazard_status_stamped h = None"
      and Q = "\<lambda>i. \<not> is_fault_report i"])
  fix h i h'
  assume "hazard_status_stamped h = None" "\<not> is_fault_report i"
    "\<forall>now resp. i \<noteq> TimerTick now resp" "step h i = Inr h'"
  then show "hazard_status_stamped h' = None"
    by (cases i) (auto simp: callback_defs)
qed (use assms in \<open>simp_all add: isDataReady_iff rclcpp_log_def\<close>)

lemma no_emergency_stop_blocked:
  assumes "\<forall>i\<in>set inputs. \<not> emergency_stop_observed i"
    "mrm_emergency_stop_status h = NOT_AVAILABLE"
  shows "\<exists>h'. exec h inputs = Inr h' \<and> mrm_emergency_stop_status h' = NOT_AVAILABLE
            \<and> outputs h' = outputs h \<and> mrm_state h' = mrm_state h"
proof (rule exec_blocked[where P = "\<lambda>h. mrm_emergency_stop_status h = NOT_AVAILABLE"
      and Q = "\<lambda>i. \<not> emergency_stop_observed i"])
  fix h i h'
  assume "mrm_emergency_stop_status h = NOT_AVAILABLE" "\<not> emergency_stop_observed i"
    "\<forall>now resp. i \<noteq> TimerTick now resp" "step h i = Inr h'"
  then show "mrm_emergency_stop_status h' = NOT_AVAILABLE"
    by (cases i) (auto simp: callback_defs)
qed (use assms in \<open>simp_all add: isDataReady_iff rclcpp_log_def\<close>)

lemma no_comfortable_stop_blocked:
  assumes "\<forall>i\<in>set inputs. \<not> comfortable_stop_observed i"
    "use_comfortable_stop (param h) \<and> mrm_comfortable_stop_status h = NOT_AVAILABLE"
  shows "\<exists>h'. exec h inputs = Inr h'
            \<and> (use_comfortable_stop (param h') \<and> mrm_comfortable_stop_status h' = NOT_AVAILABLE)
            \<and> outputs h' = outputs h \<and> mrm_state h' = mrm_state h"
proof (rule exec_blocked[where
      P = "\<lambda>h. use_comfortable_stop (param h) \<and> mrm_comfortable_stop_status h = NOT_AVAILABLE"
      and Q = "\<lambda>i. \<not> comfortable_stop_observed i"])
  fix h i h'
  assume "use_comfortable_stop (param h) \<and> mrm_comfortable_stop_status h = NOT_AVAILABLE"
    "\<not> comfortable_stop_observed i"
    "\<forall>now resp. i \<noteq> TimerTick now resp" "step h i = Inr h'"
  then show "use_comfortable_stop (param h') \<and> mrm_comfortable_stop_status h' = NOT_AVAILABLE"
    by (cases i) (auto simp: callback_defs)
qed (use assms in \<open>simp_all add: isDataReady_iff rclcpp_log_def\<close>)

text \<open>
  Claim C6. The readiness gate is open exactly when a fault report has been stored, the
  emergency stop controller's status is not NOT_AVAILABLE and, with comfortable stop
  enabled, neither is the comfortable stop controller's. A tick at a closed gate changes
  nothing but the log: no command or state is published, no request is sent, the MRM state
  stays as it is. Hence in a run from the constructor in which no fault report has
  arrived, or the emergency stop controller has never been seen other than NOT_AVAILABLE,
  or comfortable stop is enabled and its controller has never been seen other than
  NOT_AVAILABLE, nothing has left the node and the state is still the initial NORMAL/NONE.
\<close>

theorem C6_readiness_gate:
  "(fst (isDataReady h) \<longleftrightarrow>
      hazard_status_stamped h \<noteq> None
      \<and> (use_comfortable_stop (param h) \<longrightarrow> mrm_comfortable_stop_status h \<noteq> NOT_AVAILABLE)
      \<and> mrm_emergency_stop_status h \<noteq> NOT_AVAILABLE)
   \<and> (\<not> fst (isDataReady h) \<longrightarrow>
        (\<exists>l. onTimer now resp h = Inr (h\<lparr> logged := logged h @ [l] \<rparr>)))
   \<and> ((\<forall>i\<in>set inputs. \<not> is_fault_report i)
        \<or> (\<forall>i\<in>set inputs. \<not> emergency_stop_observed i)
        \<or> (use_comfortable_stop p \<and> (\<forall>i\<in>set inputs. \<not> comfortable_stop_observed i)) \<longrightarrow>
        (\<exists>h'. exec (EmergencyHandler p dbg t0) inputs = Inr h' \<and> outputs h' = []
              \<and> mrm_state h' = \<lparr> stamp = t0, state = NORMAL, behavior = NONE \<rparr>))"
proof -
  let ?h0 = "EmergencyHandler p dbg t0"
  have init: "hazard_status_stamped ?h0 = None" "mrm_emergency_stop_status ?h0 = NOT_AVAILABLE"
    "mrm_comfortable_stop_status ?h0 = NOT_AVAILABLE" "param ?h0 = p" "outputs ?h0 = []"
    "mrm_state ?h0 = \<lparr> stamp = t0, state = NORMAL, behavior = NONE \<rparr>"
    by (simp_all add: EmergencyHandler_def default_MrmBehaviorStatus_def)
  have skip: "\<exists>l. onTimer now resp h = Inr (h\<lparr> logged := logged h @ [l] \<rparr>)"
    if "\<not> fst (isDataReady h)"
    using onTimer_not_ready[OF that, of now resp] by (simp add: rclcpp_log_def)
  have hist: "\<exists>h'. exec ?h0 inputs = Inr h' \<and> outputs h' = []
              \<and> mrm_state h' = \<lparr> stamp = t0, state = NORMAL, behavior = NONE \<rparr>"
    if "(\<forall>i\<in>set inputs. \<not> is_fault_report i)
        \<or> (\<forall>i\<in>set inputs. \<not> emergency_stop_observed i)
        \<or> (use_comfortable_stop p \<and> (\<forall>i\<in>set inputs. \<not> comfortable_stop_observed i))"
    using that
  proof (elim disjE conjE)
    assume "\<forall>i\<in>set inputs. \<not> is_fault_report i"
    from no_report_blocked[OF this init(1)] init(5,6) show ?thesis by auto
  next
    assume "\<forall>i\<in>set inputs. \<not> emergency_stop_observed i"
    from no_emergency_stop_blocked[OF this init(2)] init(5,6) show ?thesis by auto
  next
    assume "use_comfortable_stop p" "\<forall>i\<in>set inputs. \<not> comfortable_stop_observed i"
    from no_comfortable_stop_blocked[OF this(2), of ?h0] this(1) init show ?thesis by auto
  qed
  from isDataReady_iff[of h] skip hist show ?thesis by blast
qed


theorem C6_readiness_gate_witness:
  "\<not> fst (isDataReady (EmergencyHandler params_cs False 0))
   \<and> (\<exists>l. onTimer (1 / 10) resp_ok (EmergencyHandler params_cs False 0)
           = Inr ((EmergencyHandler params_cs False 0)
                    \<lparr> logged := logged (EmergencyHandler params_cs False 0) @ [l] \<rparr>))
   \<and> filter is_fault_report unreported_run = []
   \<and> (\<exists>h'. exec (EmergencyHandler params_cs False 0) unreported_run = Inr h' \<and> outputs h' = []
          \<and> mrm_state h' = \<lparr> stamp = 0, state = NORMAL, behavior = NONE \<rparr>)
   \<and> filter emergency_stop_observed no_emergency_stop_run = []
   \<and> (\<exists>h'. exec (EmergencyHandler params_es False 0) no_emergency_stop_run = Inr h'
          \<and> outputs h' = []
          \<and> mrm_state h' = \<lparr> stamp = 0, state = NORMAL, behavior = NONE \<rparr>)
   \<and> use_comfortable_stop params_cs
   \<and> filter comfortable_stop_observed no_comfortable_stop_run = []
   \<and> (\<exists>h'. exec (EmergencyHandler params_cs False 0) no_comfortable_stop_run = Inr h'
          \<and> outputs h' = []
          \<and> mrm_state h' = \<lparr> stamp = 0, state = NORMAL, behavior = NONE \<rparr>)"
proof -
  have nr: "\<not> fst (isDataReady (EmergencyHandler params_cs False 0))"
    by (simp add: eval_defs)
  have f: "filter is_fault_report unreported_run = []"
    "filter emergency_stop_observed no_emergency_stop_run = []"
    "filter comfortable_stop_observed no_comfortable_stop_run = []"
    "use_comfortable_stop params_cs"
    by (simp_all add: unreported_run_def no_emergency_stop_run_def
          no_comfortable_stop_run_def driving_def fault_report_def params_cs_def)
  then have q: "\<forall>i\<in>set unreported_run. \<not> is_fault_report i"
    "\<forall>i\<in>set no_emergency_stop_run. \<not> emergency_stop_observed i"
    "\<forall>i\<in>set no_comfortable_stop_run. \<not> comfortable_stop_observed i"
    by (simp_all add: filter_empty_conv)
  from C6_readiness_gate[of "EmergencyHandler params_cs False 0" "1 / 10" resp_ok
      unreported_run params_cs False 0] nr q(1)
  have 1: "\<exists>l. onTimer (1 / 10) resp_ok (EmergencyHandler params_cs False 0)
           = Inr ((EmergencyHandler params_cs False 0)
                    \<lparr> logged := logged (EmergencyHandler params_cs False 0) @ [l] \<rparr>)"
    "\<exists>h'. exec (EmergencyHandler params_cs False 0) unreported_run = Inr h' \<and> outputs h' = []
          \<and> mrm_state h' = \<lparr> stamp = 0, state = NORMAL, behavior = NONE \<rparr>"
    by blast+
  from C6_readiness_gate[of "EmergencyHandler params_cs False 0" "1 / 10" resp_ok
      no_emergency_stop_run params_es False 0] q(2)
  have 2: "\<exists>h'. exec (EmergencyHandler params_es False 0) no_emergency_stop_run = Inr h'
          \<and> outputs h' = []
          \<and> mrm_state h' = \<lparr> stamp = 0, state = NORMAL, behavior = NONE \<rparr>"
    by blast
  from C6_readiness_gate[of "EmergencyHandler params_cs False 0" "1 / 10" resp_ok
      no_comfortable_stop_run params_cs False 0] q(3) f(4)
  have 3: "\<exists>h'. exec (EmergencyHandler params_cs False 0) no_comfortable_stop_run = Inr h'
          \<and> outputs h' = []
          \<and> mrm_state h' = \<lparr> stamp = 0, state = NORMAL, behavior = NONE \<rparr>"
    by blast
  from nr f 1 2 3 show ?thesis by blast
qed

section \<open>Ticks that run to completion\<close>

lemma snapshotsD:
  assumes "snapshots h = snapshots h'"
  shows "param h = param h'" "debug_enabled h = debug_enabled h'"
    "hazard_status_stamped h = hazard_status_stamped h'"
    "stamp_hazard_status h = stamp_hazard_status h'" "odom h = odom h'"
    "control_mode h = control_mode h'"
  using assms by (simp_all add: snapshots_def)

lemma transitionTo_total:
  assumes "valid_state (state (mrm_state h))" "valid_state s"
  shows "\<exists>h'. transitionTo s h = Inr h'"
  using assms by (auto simp: transitionTo_def state2string_def valid_state_def)

lemma publishControlCommands_total:
  assumes "hazard_status_stamped h \<noteq> None"
  shows "\<exists>h'. publishControlCommands now h = Inr h'"
  using assms
  by (auto simp: publishControlCommands_def createHazardCmdMsg_def isEmergency_def Let_def)

lemma operateMrm_OPERATING_total:
  assumes "state (mrm_state h) = MRM_OPERATING" "getCurrentMrmBehavior h = Inr b"
  shows "operateMrm resp h =
     (if b \<noteq> behavior (mrm_state h)
      then Inr (set_behavior b (callMrmBehavior resp b
                  (cancelMrmBehavior resp (behavior (mrm_state h)) h)))
      else Inr h)"
  using assms by (simp add: operateMrm_def)

lemma onTimer_compose:
  assumes "fst (isDataReady h)" "updateMrmState (checkHazardStatusTimeout now h) = Inr h2"
    "publishControlCommands now h2 = Inr h3" "operateMrm resp h3 = Inr h4"
  shows "onTimer now resp h = Inr (publishMrmState now h4)"
  using assms by (simp add: onTimer_def isDataReady_True Let_def)

lemma stale_level:
  assumes "is_hazard_status_timeout h" "hazard_status_stamped h \<noteq> None"
  shows "current_hazard_level h = Inr SINGLE_POINT_FAULT" "isEmergency h = Inr True"
  using assms by (auto simp: current_hazard_level_def isEmergency_def)

lemma select_emergency_stop:
  assumes "current_hazard_level h = Inr SINGLE_POINT_FAULT"
    "behavior (mrm_state h) = NONE \<or> behavior (mrm_state h) = COMFORTABLE_STOP"
  shows "getCurrentMrmBehavior h = Inr EMERGENCY_STOP"
  using assms by (auto simp: getCurrentMrmBehavior_def)


lemma updateMrmState_enter:
  assumes "state (mrm_state h) = NORMAL" "control_mode h = AUTONOMOUS" "isEmergency h = Inr True"
  shows "\<exists>h2. updateMrmState h = Inr h2 \<and> state (mrm_state h2) = MRM_OPERATING"
proof -
  have "updateMrmState h = transitionTo MRM_OPERATING h"
    using assms by (simp add: updateMrmState_def)
  moreover from transitionTo_total[of h MRM_OPERATING] assms(1)
  obtain h2 where "transitionTo MRM_OPERATING h = Inr h2" by (auto simp: valid_state_def)
  ultimately show ?thesis using transitionTo_state by auto
qed

lemma updateMrmState_stay:
  assumes "state (mrm_state h) = MRM_OPERATING" "isEmergency h = Inr True" "\<not> isStopped h"
  shows "updateMrmState h = Inr h"
  using assms by (simp add: updateMrmState_def)

lemma tick_arbitrates:
  assumes r: "fst (isDataReady h)"
    and u: "updateMrmState (checkHazardStatusTimeout now h) = Inr h2"
    and s2: "state (mrm_state h2) = MRM_OPERATING"
    and g: "getCurrentMrmBehavior (checkHazardStatusTimeout now h) = Inr b"
  shows "\<exists>h' hz gr. onTimer now resp h = Inr h'
      \<and> state (mrm_state h') = MRM_OPERATING \<and> behavior (mrm_state h') = b
      \<and> snapshots h' = snapshots h
      \<and> is_hazard_status_timeout h' = (now - stamp_hazard_status h > timeout_hazard_status (param h))
      \<and> outputs h' = outputs h @ [pub_hazard_cmd hz, pub_gear_cmd now gr]
           @ (if b \<noteq> behavior (mrm_state h)
              then cancel_requests (behavior (mrm_state h)) @ call_requests b else [])
           @ [pub_mrm_state (mrm_state h')]"
proof -
  let ?c = "checkHazardStatusTimeout now h"
  from r have "hazard_status_stamped h \<noteq> None" by (simp add: isDataReady_iff)
  then have "hazard_status_stamped h2 \<noteq> None"
    using snapshotsD(3)[OF updateMrmState_frame(1)[OF u]]
      snapshotsD(3)[OF checkHazardStatusTimeout_frame(1), of now h] by simp
  from publishControlCommands_total[OF this] obtain h3 where
    p: "publishControlCommands now h2 = Inr h3" by blast
  have sn3: "snapshots h3 = snapshots ?c"
    using updateMrmState_frame(1)[OF u] publishControlCommands_frame(1)[OF p] by simp
  have t3: "is_hazard_status_timeout h3 = is_hazard_status_timeout ?c"
    using updateMrmState_frame(4)[OF u] publishControlCommands_frame(3)[OF p] by simp
  have b3: "behavior (mrm_state h3) = behavior (mrm_state h)"
    using updateMrmState_frame(2)[OF u] publishControlCommands_frame(2)[OF p]
    by (simp add: checkHazardStatusTimeout_frame)
  have s3: "state (mrm_state h3) = MRM_OPERATING"
    using publishControlCommands_frame(2)[OF p] s2 by simp
  have "getCurrentMrmBehavior h3 = getCurrentMrmBehavior ?c"
    by (rule getCurrentMrmBehavior_cong(1))
       (simp_all add: sn3 t3 b3 checkHazardStatusTimeout_frame)
  with g have g3: "getCurrentMrmBehavior h3 = Inr b" by simp
  obtain h4 where o: "operateMrm resp h3 = Inr h4"
    using operateMrm_OPERATING_total[OF s3 g3, of resp] by (cases "b \<noteq> behavior (mrm_state h3)") auto
  from operateMrm_OPERATING[OF s3 o] g3 b3
  have b4: "behavior (mrm_state h4) = b"
    and o4: "outputs h4 = outputs h3 @
       (if b \<noteq> behavior (mrm_state h)
        then cancel_requests (behavior (mrm_state h)) @ call_requests b else [])"
    by simp_all
  from publishControlCommands_frame(4)[OF p] updateMrmState_frame(5)[OF u]
  obtain hz gr where o3: "outputs h3 = outputs h @ [pub_hazard_cmd hz, pub_gear_cmd now gr]"
    by (auto simp: checkHazardStatusTimeout_frame)
  let ?h' = "publishMrmState now h4"
  have "onTimer now resp h = Inr ?h'" by (rule onTimer_compose[OF r u p o])
  moreover have "state (mrm_state ?h') = MRM_OPERATING"
    using operateMrm_frame(2)[OF o] s3 by (simp add: publishMrmState_frame)
  moreover have "behavior (mrm_state ?h') = b" using b4 by (simp add: publishMrmState_frame)
  moreover have "snapshots ?h' = snapshots h"
    using operateMrm_frame(1)[OF o] sn3
    by (simp add: publishMrmState_frame checkHazardStatusTimeout_frame)
  moreover have "is_hazard_status_timeout ?h'
      = (now - stamp_hazard_status h > timeout_hazard_status (param h))"
    using operateMrm_frame(4)[OF o] t3
    by (simp add: publishMrmState_frame checkHazardStatusTimeout_frame)
  moreover have "outputs ?h' = outputs h @ [pub_hazard_cmd hz, pub_gear_cmd now gr]
           @ (if b \<noteq> behavior (mrm_state h)
              then cancel_requests (behavior (mrm_state h)) @ call_requests b else [])
           @ [pub_mrm_state (mrm_state ?h')]"
    using publishMrmState_frame(5)[of now h4] o4 o3 by simp
  ultimately show ?thesis by blast
qed


text \<open>
  Claim C7 (scenario D). Take a state reached by a run from the constructor that is
  ready, NORMAL, in autonomous mode, whose last fault report has level NO_FAULT and both
  emergency flags false. If at the next tick the report is older than the deadline, the
  tick completes, marks the report stale, the hazard level in effect is SINGLE_POINT_FAULT,
  the handler is in emergency, and the tick ends in MRM_OPERATING with behavior
  EMERGENCY_STOP.
\<close>

theorem C7_stale_report_forces_emergency_stop:
  "exec (EmergencyHandler p dbg t0) inputs = Inr h
   \<and> fst (isDataReady h) \<and> state (mrm_state h) = NORMAL \<and> control_mode h = AUTONOMOUS
   \<and> hazard_status_stamped h = Some m \<and> level (status m) = NO_FAULT
   \<and> \<not> emergency (status m) \<and> \<not> emergency_holding (status m)
   \<and> now - stamp_hazard_status h > timeout_hazard_status (param h) \<longrightarrow>
     (\<exists>h'. onTimer now resp h = Inr h'
         \<and> is_hazard_status_timeout h'
         \<and> current_hazard_level h' = Inr SINGLE_POINT_FAULT
         \<and> isEmergency h' = Inr True
         \<and> state (mrm_state h') = MRM_OPERATING
         \<and> behavior (mrm_state h') = EMERGENCY_STOP)"
proof (intro impI, elim conjE)
  assume run: "exec (EmergencyHandler p dbg t0) inputs = Inr h"
    and r: "fst (isDataReady h)" and n: "state (mrm_state h) = NORMAL"
    and a: "control_mode h = AUTONOMOUS" and m: "hazard_status_stamped h = Some m"
    and late: "now - stamp_hazard_status h > timeout_hazard_status (param h)"
  let ?c = "checkHazardStatusTimeout now h"
  from exec_inv[OF run init_inv] n have none: "behavior (mrm_state h) = NONE"
    by (simp add: normal_none_inv_def normal_implies_none_def)
  have tc: "is_hazard_status_timeout ?c" using late by (simp add: checkHazardStatusTimeout_frame)
  have mc: "hazard_status_stamped ?c \<noteq> None"
    using snapshotsD(3)[OF checkHazardStatusTimeout_frame(1), of now h] m by simp
  have ac: "control_mode ?c = AUTONOMOUS"
    using snapshotsD(6)[OF checkHazardStatusTimeout_frame(1), of now h] a by simp
  from updateMrmState_enter[OF _ ac stale_level(2)[OF tc mc]] n
  obtain h2 where u: "updateMrmState ?c = Inr h2" and s2: "state (mrm_state h2) = MRM_OPERATING"
    by (auto simp: checkHazardStatusTimeout_frame)
  have g: "getCurrentMrmBehavior ?c = Inr EMERGENCY_STOP"
    by (rule select_emergency_stop[OF stale_level(1)[OF tc mc]])
       (simp add: none checkHazardStatusTimeout_frame)
  from tick_arbitrates[OF r u s2 g, of resp] late obtain h' where
    t: "onTimer now resp h = Inr h'" and s': "state (mrm_state h') = MRM_OPERATING"
    and b': "behavior (mrm_state h') = EMERGENCY_STOP" and sn: "snapshots h' = snapshots h"
    and t': "is_hazard_status_timeout h'" by auto
  have "hazard_status_stamped h' \<noteq> None" using snapshotsD(3)[OF sn] m by simp
  from stale_level[OF t' this] t s' b' t'
  show "\<exists>h'. onTimer now resp h = Inr h'
         \<and> is_hazard_status_timeout h'
         \<and> current_hazard_level h' = Inr SINGLE_POINT_FAULT
         \<and> isEmergency h' = Inr True
         \<and> state (mrm_state h') = MRM_OPERATING
         \<and> behavior (mrm_state h') = EMERGENCY_STOP" by blast
qed

theorem C7_stale_report_forces_emergency_stop_witness:
  "\<exists>h m. exec (EmergencyHandler params_cs False 0) silent_run = Inr h
     \<and> fst (isDataReady h) \<and> state (mrm_state h) = NORMAL \<and> control_mode h = AUTONOMOUS
     \<and> hazard_status_stamped h = Some m \<and> level (status m) = NO_FAULT
     \<and> \<not> emergency (status m) \<and> \<not> emergency_holding (status m)
     \<and> 1 - stamp_hazard_status h > timeout_hazard_status (param h)
     \<and> (\<exists>h'. onTimer 1 resp_ok h = Inr h'
         \<and> is_hazard_status_timeout h'
         \<and> current_hazard_level h' = Inr SINGLE_POINT_FAULT
         \<and> isEmergency h' = Inr True
         \<and> state (mrm_state h') = MRM_OPERATING
         \<and> behavior (mrm_state h') = EMERGENCY_STOP)"
proof -
  let ?h = "projr (exec (EmergencyHandler params_cs False 0) silent_run)"
  let ?m = "\<lparr> hazard_stamp = 0,
             status = \<lparr> level = NO_FAULT, emergency = False, emergency_holding = False \<rparr> \<rparr>"
  have a: "exec (EmergencyHandler params_cs False 0) silent_run = Inr ?h"
    "fst (isDataReady ?h)" "state (mrm_state ?h) = NORMAL" "control_mode ?h = AUTONOMOUS"
    "hazard_status_stamped ?h = Some ?m"
    "1 - stamp_hazard_status ?h > timeout_hazard_status (param ?h)"
    by (simp_all add: silent_run_def eval_defs)
  have b: "level (status ?m) = NO_FAULT" "\<not> emergency (status ?m)"
    "\<not> emergency_holding (status ?m)" by simp_all
  from C7_stale_report_forces_emergency_stop[of params_cs False 0 silent_run ?h ?m 1 resp_ok]
    a b show ?thesis by blast
qed

section \<open>Arbitration is idempotent\<close>

lemma getCurrentMrmBehavior_idem:
  assumes "getCurrentMrmBehavior h = Inr b" "snapshots h1 = snapshots h"
    "is_hazard_status_timeout h1 = is_hazard_status_timeout h" "behavior (mrm_state h1) = b"
  shows "getCurrentMrmBehavior h1 = Inr b"
proof -
  from assms(2,3) have "current_hazard_level h1 = current_hazard_level h"
    by (simp add: current_hazard_level_def snapshots_def split: option.splits)
  with assms(1,4) assms(2) show ?thesis
    by (cases "current_hazard_level h")
       (auto simp: getCurrentMrmBehavior_def snapshots_def split: if_splits)
qed

lemma operateMrm_twice:
  assumes "operateMrm resp h = Inr h1"
  shows "operateMrm resp' h1 =
     Inr (if valid_state (state (mrm_state h1)) then h1
          else rclcpp_log (LOG_WARN ''invalid MRM state'') h1)"
proof (cases "state (mrm_state h) = NORMAL")
  case True
  from operateMrm_NORMAL[OF True, of resp] assms operateMrm_frame(2)[OF assms] True
  have "state (mrm_state h1) = NORMAL" "behavior (mrm_state h1) = NONE" by auto
  then show ?thesis by (simp add: operateMrm_def valid_state_def)
next
  case False
  show ?thesis
  proof (cases "state (mrm_state h) = MRM_OPERATING")
    case True
    have s1: "state (mrm_state h1) = MRM_OPERATING"
      using operateMrm_frame(2)[OF assms] True by simp
    have "getCurrentMrmBehavior h1 = Inr (behavior (mrm_state h1))"
      by (rule getCurrentMrmBehavior_idem[OF operateMrm_OPERATING(1)[OF True assms]
            operateMrm_frame(1)[OF assms] operateMrm_frame(4)[OF assms]]) simp
    from operateMrm_OPERATING_total[OF s1 this, of resp'] s1 show ?thesis
      by (simp add: valid_state_def)
  next
    case nop: False
    have s1: "state (mrm_state h1) = state (mrm_state h)"
      using operateMrm_frame(2)[OF assms] by simp
    with False nop show ?thesis
      by (simp add: operateMrm_def valid_state_def)
  qed
qed

text \<open>
  Claim C8. Running the arbitration step on the result of the arbitration step, with the
  snapshots untouched in between, returns that result as it is: no request is sent and no
  field changes (on a state outside the enumeration the warning is logged once more, and
  that is all). In particular the step is the identity whenever the behavior it computes
  is the committed one.
\<close>

theorem C8_arbitration_idempotent:
  "(operateMrm resp h = Inr h1 \<longrightarrow>
      operateMrm resp' h1 =
        Inr (if valid_state (state (mrm_state h1)) then h1
             else rclcpp_log (LOG_WARN ''invalid MRM state'') h1))
   \<and> (state (mrm_state h) = MRM_OPERATING
        \<and> getCurrentMrmBehavior h = Inr (behavior (mrm_state h)) \<longrightarrow>
        operateMrm resp h = Inr h)
   \<and> (state (mrm_state h) = NORMAL \<and> behavior (mrm_state h) = NONE \<longrightarrow>
        operateMrm resp h = Inr h)"
proof -
  have "operateMrm resp h = Inr h"
    if "state (mrm_state h) = MRM_OPERATING
        \<and> getCurrentMrmBehavior h = Inr (behavior (mrm_state h))"
    using that operateMrm_OPERATING_total[of h "behavior (mrm_state h)" resp] by simp
  moreover have "operateMrm resp h = Inr h"
    if "state (mrm_state h) = NORMAL \<and> behavior (mrm_state h) = NONE"
    using that by (simp add: operateMrm_def)
  ultimately show ?thesis using operateMrm_twice[of resp h h1 resp'] by blast
qed

theorem C8_arbitration_idempotent_witness:
  "(\<exists>h h1. exec (EmergencyHandler params_cs False 0) escalation_run = Inr h
      \<and> operateMrm resp_ok h = Inr h1
      \<and> outputs h1 = outputs h @ [async_send_request client_mrm_comfortable_stop False,
                                   async_send_request client_mrm_emergency_stop True]
      \<and> valid_state (state (mrm_state h1))
      \<and> operateMrm resp_ok h1 = Inr h1
      \<and> state (mrm_state h1) = MRM_OPERATING
      \<and> getCurrentMrmBehavior h1 = Inr (behavior (mrm_state h1)))
   \<and> state (mrm_state quiet_handler) = NORMAL \<and> behavior (mrm_state quiet_handler) = NONE
   \<and> operateMrm resp_ok quiet_handler = Inr quiet_handler"
proof -
  let ?h = "projr (exec (EmergencyHandler params_cs False 0) escalation_run)"
  let ?h1 = "projr (operateMrm resp_ok ?h)"
  have a: "exec (EmergencyHandler params_cs False 0) escalation_run = Inr ?h"
    "operateMrm resp_ok ?h = Inr ?h1"
    "outputs ?h1 = outputs ?h @ [async_send_request client_mrm_comfortable_stop False,
                                   async_send_request client_mrm_emergency_stop True]"
    "valid_state (state (mrm_state ?h1))"
    "state (mrm_state ?h1) = MRM_OPERATING"
    "getCurrentMrmBehavior ?h1 = Inr (behavior (mrm_state ?h1))"
    by (simp_all add: run_defs valid_state_def eval_defs)
  have q: "state (mrm_state quiet_handler) = NORMAL" "behavior (mrm_state quiet_handler) = NONE"
    by (simp_all add: handler_defs eval_defs)
  from C8_arbitration_idempotent[of resp_ok ?h ?h1 resp_ok] a
  have 1: "operateMrm resp_ok ?h1 = Inr ?h1" by simp
  from C8_arbitration_idempotent[of resp_ok ?h1 ?h1 resp_ok] a(5,6)
  have 3: "operateMrm resp_ok ?h1 = Inr ?h1" by simp
  from C8_arbitration_idempotent[of resp_ok quiet_handler ?h1 resp_ok] q
  have 2: "operateMrm resp_ok quiet_handler = Inr quiet_handler" by simp
  from a q 1 2 3 show ?thesis by blast
qed

section \<open>Escalation from comfortable stop to emergency stop\<close>

text \<open>
  Claim C9 promises the cancel and the call on every tick that starts in MRM_OPERATING
  with behavior COMFORTABLE_STOP and level SINGLE_POINT_FAULT. Two runs show otherwise.
  In the first the vehicle has already stopped: the state machine moves to MRM_SUCCEEDED
  before the arbitration, which then does nothing, and the behavior stays
  COMFORTABLE_STOP. In the second the worse report does not carry the emergency flag: the
  state machine recovers to NORMAL, and the arbitration only cancels the comfortable stop.
\<close>

theorem C9_no_escalation_when_stopped:
  "mrm_of (exec (EmergencyHandler params_cs False 0) stopped_escalation_run)
     = Some (MRM_OPERATING, COMFORTABLE_STOP)
   \<and> level_of (exec (EmergencyHandler params_cs False 0)
                  (stopped_escalation_run @ [TimerTick (2 / 10) resp_ok]))
     = Some SINGLE_POINT_FAULT
   \<and> mrm_of (exec (EmergencyHandler params_cs False 0)
                (stopped_escalation_run @ [TimerTick (2 / 10) resp_ok]))
     = Some (MRM_SUCCEEDED, COMFORTABLE_STOP)
   \<and> requests_of (exec (EmergencyHandler params_cs False 0)
                (stopped_escalation_run @ [TimerTick (2 / 10) resp_ok]))
     = Some [async_send_request client_mrm_comfortable_stop True]
   \<and> mrm_of (exec (EmergencyHandler params_cs False 0) unflagged_escalation_run)
     = Some (MRM_OPERATING, COMFORTABLE_STOP)
   \<and> level_of (exec (EmergencyHandler params_cs False 0)
                  (unflagged_escalation_run @ [TimerTick (2 / 10) resp_ok]))
     = Some SINGLE_POINT_FAULT
   \<and> mrm_of (exec (EmergencyHandler params_cs False 0)
                (unflagged_escalation_run @ [TimerTick (2 / 10) resp_ok]))
     = Some (NORMAL, NONE)
   \<and> requests_of (exec (EmergencyHandler params_cs False 0)
                (unflagged_escalation_run @ [TimerTick (2 / 10) resp_ok]))
     = Some [async_send_request client_mrm_comfortable_stop True,
             async_send_request client_mrm_comfortable_stop False]"
  by (simp add: run_defs unflagged_escalation_run_def eval_defs)

text \<open>
  Claim C9, as amended (scenario C). Take a tick that passes the readiness gate and starts
  in MRM_OPERATING with behavior COMFORTABLE_STOP, in which the hazard level in effect is
  SINGLE_POINT_FAULT, the handler is in emergency and the vehicle is not stopped (so the
  state machine step leaves MRM_OPERATING). Then the tick sends, after the hazard light and
  gear commands, exactly the cancel of the comfortable stop followed by the call of the
  emergency stop, and publishes MRM_OPERATING with behavior EMERGENCY_STOP. Within the
  arbitration step the two requests are issued while the behavior field still says
  COMFORTABLE_STOP; the new value is stored after them.
\<close>

theorem C9_escalation_requests:
  "(fst (isDataReady h) \<and> state (mrm_state h) = MRM_OPERATING
    \<and> behavior (mrm_state h) = COMFORTABLE_STOP
    \<and> current_hazard_level (checkHazardStatusTimeout now h) = Inr SINGLE_POINT_FAULT
    \<and> isEmergency (checkHazardStatusTimeout now h) = Inr True \<and> \<not> isStopped h \<longrightarrow>
      (\<exists>h' hz g. onTimer now resp h = Inr h'
          \<and> outputs h' = outputs h @
               [pub_hazard_cmd hz, pub_gear_cmd now g,
                async_send_request client_mrm_comfortable_stop False,
                async_send_request client_mrm_emergency_stop True,
                pub_mrm_state (mrm_state h')]
          \<and> state (mrm_state h') = MRM_OPERATING
          \<and> behavior (mrm_state h') = EMERGENCY_STOP))
   \<and> (state (mrm_state h) = MRM_OPERATING \<and> behavior (mrm_state h) = COMFORTABLE_STOP
       \<and> current_hazard_level h = Inr SINGLE_POINT_FAULT \<longrightarrow>
      operateMrm resp h =
        Inr (set_behavior EMERGENCY_STOP
              (callMrmBehavior resp EMERGENCY_STOP
                (cancelMrmBehavior resp COMFORTABLE_STOP h)))
      \<and> outputs (callMrmBehavior resp EMERGENCY_STOP (cancelMrmBehavior resp COMFORTABLE_STOP h))
          = outputs h @ [async_send_request client_mrm_comfortable_stop False,
                         async_send_request client_mrm_emergency_stop True]
      \<and> behavior (mrm_state (callMrmBehavior resp EMERGENCY_STOP
                                (cancelMrmBehavior resp COMFORTABLE_STOP h)))
          = COMFORTABLE_STOP)"
proof -
  let ?c = "checkHazardStatusTimeout now h"
  have tick: "\<exists>h' hz g. onTimer now resp h = Inr h'
          \<and> outputs h' = outputs h @
               [pub_hazard_cmd hz, pub_gear_cmd now g,
                async_send_request client_mrm_comfortable_stop False,
                async_send_request client_mrm_emergency_stop True,
                pub_mrm_state (mrm_state h')]
          \<and> state (mrm_state h') = MRM_OPERATING
          \<and> behavior (mrm_state h') = EMERGENCY_STOP"
    if r: "fst (isDataReady h)" and s: "state (mrm_state h) = MRM_OPERATING"
      and b: "behavior (mrm_state h) = COMFORTABLE_STOP"
      and l: "current_hazard_level ?c = Inr SINGLE_POINT_FAULT"
      and e: "isEmergency ?c = Inr True" and m: "\<not> isStopped h"
  proof -
    have "\<not> isStopped ?c"
      using m by (simp add: isStopped_def snapshotsD(5)[OF checkHazardStatusTimeout_frame(1)])
    with s e have u: "updateMrmState ?c = Inr ?c"
      by (intro updateMrmState_stay) (simp_all add: checkHazardStatusTimeout_frame)
    have s2: "state (mrm_state ?c) = MRM_OPERATING"
      using s by (simp add: checkHazardStatusTimeout_frame)
    have g: "getCurrentMrmBehavior ?c = Inr EMERGENCY_STOP"
      by (rule select_emergency_stop[OF l]) (simp add: b checkHazardStatusTimeout_frame)
    from tick_arbitrates[OF r u s2 g, of resp] b show ?thesis
      by (auto simp: cancel_requests_def call_requests_def)
  qed
  have arb: "operateMrm resp h =
        Inr (set_behavior EMERGENCY_STOP
              (callMrmBehavior resp EMERGENCY_STOP
                (cancelMrmBehavior resp COMFORTABLE_STOP h)))
      \<and> outputs (callMrmBehavior resp EMERGENCY_STOP (cancelMrmBehavior resp COMFORTABLE_STOP h))
          = outputs h @ [async_send_request client_mrm_comfortable_stop False,
                         async_send_request client_mrm_emergency_stop True]
      \<and> behavior (mrm_state (callMrmBehavior resp EMERGENCY_STOP
                                (cancelMrmBehavior resp COMFORTABLE_STOP h)))
          = COMFORTABLE_STOP"
    if s: "state (mrm_state h) = MRM_OPERATING" and b: "behavior (mrm_state h) = COMFORTABLE_STOP"
      and l: "current_hazard_level h = Inr SINGLE_POINT_FAULT"
  proof -
    have g: "getCurrentMrmBehavior h = Inr EMERGENCY_STOP"
      by (rule select_emergency_stop[OF l]) (simp add: b)
    from operateMrm_OPERATING_total[OF s g, of resp] b show ?thesis
      by (simp add: call_frame cancel_frame cancel_requests_def call_requests_def)
  qed
  from tick arb show ?thesis by blast
qed

theorem C9_escalation_requests_witness:
  "\<exists>h. exec (EmergencyHandler params_cs False 0) escalation_run = Inr h
     \<and> fst (isDataReady h) \<and> state (mrm_state h) = MRM_OPERATING
     \<and> behavior (mrm_state h) = COMFORTABLE_STOP
     \<and> current_hazard_level (checkHazardStatusTimeout (2 / 10) h) = Inr SINGLE_POINT_FAULT
     \<and> isEmergency (checkHazardStatusTimeout (2 / 10) h) = Inr True \<and> \<not> isStopped h
     \<and> current_hazard_level h = Inr SINGLE_POINT_FAULT
     \<and> (\<exists>h' hz g. onTimer (2 / 10) resp_ok h = Inr h'
          \<and> outputs h' = outputs h @
               [pub_hazard_cmd hz, pub_gear_cmd (2 / 10) g,
                async_send_request client_mrm_comfortable_stop False,
                async_send_request client_mrm_emergency_stop True,
                pub_mrm_state (mrm_state h')]
          \<and> state (mrm_state h') = MRM_OPERATING
          \<and> behavior (mrm_state h') = EMERGENCY_STOP)
     \<and> operateMrm resp_ok h =
        Inr (set_behavior EMERGENCY_STOP
              (callMrmBehavior resp_ok EMERGENCY_STOP
                (cancelMrmBehavior resp_ok COMFORTABLE_STOP h)))"
proof -
  let ?h = "projr (exec (EmergencyHandler params_cs False 0) escalation_run)"
  have a: "exec (EmergencyHandler params_cs False 0) escalation_run = Inr ?h"
    "fst (isDataReady ?h)" "state (mrm_state ?h) = MRM_OPERATING"
    "behavior (mrm_state ?h) = COMFORTABLE_STOP"
    "current_hazard_level (checkHazardStatusTimeout (2 / 10) ?h) = Inr SINGLE_POINT_FAULT"
    "isEmergency (checkHazardStatusTimeout (2 / 10) ?h) = Inr True" "\<not> isStopped ?h"
    "current_hazard_level ?h = Inr SINGLE_POINT_FAULT"
    by (simp_all add: run_defs eval_defs)
  from C9_escalation_requests[of ?h "2 / 10" resp_ok] a show ?thesis by blast
qed

section \<open>The stopped test and the odometry snapshot\<close>

lemma onTimer_snapshots:
  assumes "onTimer now resp h = Inr h'"
  shows "snapshots h' = snapshots h"
proof (cases "fst (isDataReady h)")
  case True
  from onTimer_ready_frame[OF True assms] obtain h3 h4 where
    "operateMrm resp h3 = Inr h4" "h' = publishMrmState now h4" "snapshots h3 = snapshots h"
    by blast
  with operateMrm_frame(1)[of resp h3 h4] show ?thesis
    by (simp add: publishMrmState_frame)
next
  case False
  from onTimer_not_ready[OF False, of now resp] assms show ?thesis
    by (auto simp: rclcpp_log_frame)
qed

lemma step_odom:
  assumes "step h i = Inr h'" "\<not> is_odometry i"
  shows "odom h' = odom h"
proof (cases i)
  case (TimerTick now resp)
  with assms snapshotsD(5)[OF onTimer_snapshots, of now resp h h'] show ?thesis by simp
qed (use assms in \<open>auto simp: callback_defs\<close>)

lemma exec_odom:
  "exec h inputs = Inr h' \<Longrightarrow> \<forall>i\<in>set inputs. \<not> is_odometry i \<Longrightarrow> odom h' = odom h"
proof (induction inputs arbitrary: h)
  case Nil
  then show ?case by simp
next
  case (Cons i inputs)
  then show ?case
    by (cases "step h i") (auto dest: step_odom)
qed

text \<open>
  Claim C10. \<open>isStopped\<close> holds for every stored velocity below 0.001, however far below
  zero. The readiness gate does not look at the odometry, and the constructor stores a zero
  velocity, so \<open>isStopped\<close> holds in every state of a run in which no odometry message has
  arrived. In the run below no odometry message arrives: its first tick enters
  MRM_OPERATING and already commands the gear PARK, and one more tick moves from
  MRM_OPERATING to MRM_SUCCEEDED.
\<close>

theorem C10_stopped_without_odometry:
  "(v < 1 / 1000 \<longrightarrow> isStopped (onOdometry v h))
   \<and> fst (isDataReady (onOdometry v h)) = fst (isDataReady h)
   \<and> isStopped (EmergencyHandler p dbg t0)
   \<and> ((\<forall>i\<in>set inputs. \<not> is_odometry i) \<and> exec (EmergencyHandler p dbg t0) inputs = Inr h'
        \<longrightarrow> isStopped h')
   \<and> filter is_odometry (no_odometry_run @ [TimerTick (2 / 10) resp_ok]) = []
   \<and> mrm_of (exec (EmergencyHandler params_es False 0) no_odometry_run)
       = Some (MRM_OPERATING, EMERGENCY_STOP)
   \<and> mrm_of (exec (EmergencyHandler params_es False 0)
                (no_odometry_run @ [TimerTick (2 / 10) resp_ok]))
       = Some (MRM_SUCCEEDED, EMERGENCY_STOP)
   \<and> outputs_of (exec (EmergencyHandler params_es False 0)
                (no_odometry_run @ [TimerTick (2 / 10) resp_ok]))
       = Some [pub_hazard_cmd ENABLE, pub_gear_cmd (1 / 10) PARK,
               async_send_request client_mrm_emergency_stop True,
               pub_mrm_state \<lparr> stamp = 1 / 10, state = MRM_OPERATING,
                               behavior = EMERGENCY_STOP \<rparr>,
               pub_hazard_cmd ENABLE, pub_gear_cmd (2 / 10) PARK,
               pub_mrm_state \<lparr> stamp = 2 / 10, state = MRM_SUCCEEDED,
                               behavior = EMERGENCY_STOP \<rparr>]"
proof -
  have 1: "v < 1 / 1000 \<longrightarrow> isStopped (onOdometry v h)"
    by (simp add: isStopped_def onOdometry_def th_stopped_velocity_def)
  have 2: "fst (isDataReady (onOdometry v h)) = fst (isDataReady h)"
    by (simp add: isDataReady_iff onOdometry_def)
  have 3: "isStopped (EmergencyHandler p dbg t0)"
    by (simp add: isStopped_def EmergencyHandler_def th_stopped_velocity_def)
  have 4: "isStopped h'"
    if "(\<forall>i\<in>set inputs. \<not> is_odometry i) \<and> exec (EmergencyHandler p dbg t0) inputs = Inr h'"
    using exec_odom[of "EmergencyHandler p dbg t0" inputs h'] that 3
    by (simp add: isStopped_def)
  have 5: "filter is_odometry (no_odometry_run @ [TimerTick (2 / 10) resp_ok]) = []"
    by (simp add: no_odometry_run_def fault_report_def)
  have 6: "mrm_of (exec (EmergencyHandler params_es False 0) no_odometry_run)
       = Some (MRM_OPERATING, EMERGENCY_STOP)"
    by (simp add: no_odometry_run_def eval_defs)
  have 7: "mrm_of (exec (EmergencyHandler params_es False 0)
                (no_odometry_run @ [TimerTick (2 / 10) resp_ok]))
       = Some (MRM_SUCCEEDED, EMERGENCY_STOP)"
    by (simp add: no_odometry_run_def eval_defs)
  have 8: "outputs_of (exec (EmergencyHandler params_es False 0)
                (no_odometry_run @ [TimerTick (2 / 10) resp_ok]))
       = Some [pub_hazard_cmd ENABLE, pub_gear_cmd (1 / 10) PARK,
               async_send_request client_mrm_emergency_stop True,
               pub_mrm_state \<lparr> stamp = 1 / 10, state = MRM_OPERATING,
                               behavior = EMERGENCY_STOP \<rparr>,
               pub_hazard_cmd ENABLE, pub_gear_cmd (2 / 10) PARK,
               pub_mrm_state \<lparr> stamp = 2 / 10, state = MRM_SUCCEEDED,
                               behavior = EMERGENCY_STOP \<rparr>]"
    by (simp add: no_odometry_run_def eval_defs)
  from 1 2 3 4 5 6 7 8 show ?thesis by blast
qed

theorem C10_stopped_without_odometry_witness:
  "(- 1000000 :: real) < 1 / 1000 \<and> isStopped (onOdometry (- 1000000) quiet_handler)
   \<and> filter is_odometry (no_odometry_run @ [TimerTick (2 / 10) resp_ok]) = []
   \<and> (\<exists>h'. exec (EmergencyHandler params_es False 0)
               (no_odometry_run @ [TimerTick (2 / 10) resp_ok]) = Inr h'
          \<and> state (mrm_state h') = MRM_SUCCEEDED \<and> isStopped h')"
proof -
  let ?run = "no_odometry_run @ [TimerTick (2 / 10) resp_ok]"
  let ?h = "projr (exec (EmergencyHandler params_es False 0) ?run)"
  have a: "exec (EmergencyHandler params_es False 0) ?run = Inr ?h"
    "state (mrm_state ?h) = MRM_SUCCEEDED"
    by (simp_all add: no_odometry_run_def eval_defs)
  have f: "filter is_odometry ?run = []"
    by (simp add: no_odometry_run_def fault_report_def)
  then have q: "\<forall>i\<in>set ?run. \<not> is_odometry i" by (simp add: filter_empty_conv)
  have v: "(- 1000000 :: real) < 1 / 1000" by simp
  from C10_stopped_without_odometry[of "- 1000000" quiet_handler params_es False 0 ?run ?h]
    a q v f show ?thesis by blast
qed

end
